theory Spec2Isabelle
  imports Complex_Main
begin

section \<open>Data model\<close>

text \<open>
  The GENESIS controller is TypeScript. Its \<open>number\<close> values that carry weights, scores
  and rates are modelled as \<open>real\<close> (IEEE rounding is not modelled), counters as
  \<open>nat\<close>, and millisecond timestamps as \<open>int\<close>. Enums are datatypes, interfaces are
  records, an optional field is an \<open>option\<close>. Randomness, identifiers and the clock come
  from the environment and are passed in as arguments.
\<close>

datatype DecisionType =
    CREATE_AGENT
  | COORDINATE_AGENTS
  | EVOLVE_STRATEGY
  | WAIT_AND_OBSERVE
  | DELEGATE_TASK
  | ANALYZE_PERFORMANCE

datatype AgentRole = EXPLORER | BUILDER | ANALYST | COORDINATOR | GUARDIAN

datatype AgentStatus = CREATED | ACTIVE | PAUSED | COMPLETED

record AgentMetadata =
  creationTx :: string
  missionProgress :: real
  lastActive :: int
  successCount :: nat
  failureCount :: nat
  currentTask :: "string option"
  taskHistory :: "string list"

record Agent =
  agent_id :: string
  agent_role :: AgentRole
  mission :: string
  walletAddress :: string
  createdAt :: int
  createdBy :: string
  agent_status :: AgentStatus
  metadata :: AgentMetadata

text \<open>\<open>Record<string, unknown>\<close>: the only values the engine stores are lists of agent ids.\<close>

type_synonym parameters = "(string \<times> string list) list"

record Decision =
  dec_id :: string
  dec_type :: DecisionType
  dec_reasoning :: string
  dec_parameters :: parameters
  dec_timestamp :: int
  confidence :: real
  madeBy :: string
  dec_agentId :: "string option"

record DecisionOption =
  opt_type :: DecisionType
  opt_weight :: real
  opt_reasoning :: string
  opt_parameters :: "parameters option"

record ActionResult =
  success :: bool
  res_decision :: Decision
  outcome :: string
  transactionSignature :: "string option"
  res_error :: "string option"
  res_timestamp :: int
  duration :: int

record EvolutionMetrics =
  em_evolutionScore :: real
  totalEvolutions :: nat
  lastEvolutionTime :: int

record SystemState =
  agentCount :: nat
  activeAgents :: "Agent list"
  recentDecisions :: "Decision list"
  walletBalances :: "string \<rightharpoonup> real"
  evolutionMetrics :: EvolutionMetrics
  st_timestamp :: int

record SystemMetrics =
  totalAgentsCreated :: nat
  sm_activeAgents :: nat
  totalDecisions :: nat
  successfulActions :: nat
  failedActions :: nat
  totalTransactions :: nat
  averageCycleTime :: real
  evolutionScore :: real
  uptime :: real
  lastUpdated :: int

datatype EvolutionType =
    STRATEGY_ADJUSTMENT
  | PERFORMANCE_IMPROVEMENT
  | NEW_CAPABILITY
  | ERROR_LEARNING

record EvolutionEvent =
  ev_id :: string
  ev_type :: EvolutionType
  ev_description :: string
  ev_before :: "(string \<times> real) list"
  ev_after :: "(string \<times> real) list"
  ev_timestamp :: int
  triggeredBy :: string

section \<open>Decision engine\<close>

text \<open>\<open>decisionWeights: Record<DecisionType, number>\<close>, one base weight per action type.\<close>

type_synonym weights = "DecisionType \<Rightarrow> real"

text \<open>The constructor's base weights.\<close>

fun initialWeights :: weights where
  "initialWeights CREATE_AGENT = 0.3"
| "initialWeights COORDINATE_AGENTS = 0.15"
| "initialWeights EVOLVE_STRATEGY = 0.1"
| "initialWeights WAIT_AND_OBSERVE = 0.1"
| "initialWeights DELEGATE_TASK = 0.25"
| "initialWeights ANALYZE_PERFORMANCE = 0.1"

definition updateWeights :: "weights \<Rightarrow> DecisionType \<Rightarrow> bool \<Rightarrow> weights" where
  "updateWeights w decisionType succ =
     (let adjustment = (if succ then 0.05 else - 0.05)
      in w(decisionType := max 0.05 (min 0.9 (w decisionType + adjustment))))"

text \<open>A finite sequence of \<open>updateWeights\<close> calls applied to an engine, oldest call first.\<close>

fun updateAll :: "weights \<Rightarrow> (DecisionType \<times> bool) list \<Rightarrow> weights" where
  "updateAll w [] = w"
| "updateAll w ((t, succ) # calls) = updateAll (updateWeights w t succ) calls"

subsection \<open>Option weights\<close>

definition calculateCreateAgentWeight :: "weights \<Rightarrow> SystemState \<Rightarrow> real" where
  "calculateCreateAgentWeight w state =
     (let weight = w CREATE_AGENT;
          weight = (if agentCount state < 3 then weight * 1.75
                    else if agentCount state \<ge> 5 then weight * 0.25
                    else weight)
      in max 0.05 (min 0.9 weight))"

definition calculateCoordinateWeight :: "weights \<Rightarrow> SystemState \<Rightarrow> real" where
  "calculateCoordinateWeight w state =
     (let weight = w COORDINATE_AGENTS;
          weight = (if agentCount state \<ge> 3 then weight * 2.0 else weight * 0.5)
      in max 0.05 (min 0.9 weight))"

definition calculateEvolveWeight :: "weights \<Rightarrow> SystemState \<Rightarrow> real" where
  "calculateEvolveWeight w state =
     (let weight = w EVOLVE_STRATEGY;
          weight = (if em_evolutionScore (evolutionMetrics state) < 0.5 then weight * 1.5
                    else weight)
      in max 0.05 (min 0.9 weight))"

definition calculateWaitWeight :: "weights \<Rightarrow> SystemState \<Rightarrow> real" where
  "calculateWaitWeight w state =
     (let weight = w WAIT_AND_OBSERVE;
          weight = (if length (recentDecisions state) < 5 then weight * 0.7 else weight)
      in max 0.05 (min 0.9 weight))"

text \<open>
  \<open>!a.metadata.currentTask\<close>: an absent task and the empty string are both falsy.
\<close>

definition noCurrentTask :: "Agent \<Rightarrow> bool" where
  "noCurrentTask a = (case currentTask (metadata a) of None \<Rightarrow> True | Some t \<Rightarrow> t = [])"

definition childAgentsOf :: "SystemState \<Rightarrow> Agent list" where
  "childAgentsOf state = filter (\<lambda>a. agent_id a \<noteq> ''genesis_root'') (activeAgents state)"

definition calculateDelegateTaskWeight :: "weights \<Rightarrow> SystemState \<Rightarrow> real" where
  "calculateDelegateTaskWeight w state =
     (let weight = w DELEGATE_TASK;
          childAgents = childAgentsOf state;
          weight = (if length childAgents > 0 then weight * 1.5 else weight * 0.1);
          idleAgents = filter noCurrentTask childAgents;
          weight = (if real (length idleAgents) > real (length childAgents) / 2
                    then weight * 1.3 else weight)
      in max 0.05 (min 0.9 weight))"

definition calculateAnalyzeWeight :: "weights \<Rightarrow> SystemState \<Rightarrow> real" where
  "calculateAnalyzeWeight w state =
     (let weight = w ANALYZE_PERFORMANCE;
          weight = (if length (recentDecisions state) \<ge> 5 then weight * 1.5 else weight);
          weight = (if agentCount state \<ge> 3 then weight * 1.3 else weight)
      in max 0.05 (min 0.9 weight))"

subsection \<open>Reasoning texts\<close>

text \<open>A count inside a template literal prints in decimal.\<close>

fun showNat :: "nat \<Rightarrow> string" where
  "showNat n =
     (if n < 10 then [''0123456789'' ! n]
      else showNat (n div 10) @ [''0123456789'' ! (n mod 10)])"

declare showNat.simps [simp del]

definition getCreateAgentReasoning :: "SystemState \<Rightarrow> string" where
  "getCreateAgentReasoning state =
     (if agentCount state = 0
      then ''No agents exist yet. Creating first agent to bootstrap the ecosystem.''
      else if agentCount state < 3
      then ''Only '' @ showNat (agentCount state) @
           '' agents active. Need more agents to build robust ecosystem.''
      else ''System has '' @ showNat (agentCount state) @
           '' agents. Consider adding specialized agent for new capabilities.'')"

definition getCoordinateReasoning :: "SystemState \<Rightarrow> string" where
  "getCoordinateReasoning state =
     showNat (agentCount state) @
     '' agents active. Coordination can optimize their collective performance.''"

text \<open>
  \<open>Number.prototype.toFixed\<close> is a built-in of the language; the functions that print a
  score take it as the argument \<open>toFixed\<close>.
\<close>

definition getEvolveReasoning :: "(real \<Rightarrow> nat \<Rightarrow> string) \<Rightarrow> SystemState \<Rightarrow> string" where
  "getEvolveReasoning toFixed state =
     ''Evolution score: '' @ toFixed (em_evolutionScore (evolutionMetrics state)) 2 @
     ''. Adjusting strategy based on performance.''"

definition getWaitReasoning :: "SystemState \<Rightarrow> string" where
  "getWaitReasoning state =
     ''System stable with '' @ showNat (agentCount state) @
     '' agents. Observing current state before next action.''"

definition getDelegateTaskReasoning :: "SystemState \<Rightarrow> string" where
  "getDelegateTaskReasoning state =
     (let childAgents = childAgentsOf state;
          idle = filter noCurrentTask childAgents
      in if length idle > 0
         then showNat (length idle) @
              '' idle agents available. Delegating role-specific tasks to utilize the ecosystem.''
         else showNat (length childAgents) @
              '' child agents active. Assigning new work to keep the ecosystem productive.'')"

definition getAnalyzeReasoning :: "SystemState \<Rightarrow> string" where
  "getAnalyzeReasoning state =
     ''System has '' @ showNat (length (recentDecisions state)) @
     '' recent decisions. Analyzing performance to optimize strategy.''"

subsection \<open>Generating, selecting and formalising an option\<close>

definition generateOptions ::
  "(real \<Rightarrow> nat \<Rightarrow> string) \<Rightarrow> weights \<Rightarrow> SystemState \<Rightarrow> DecisionOption list" where
  "generateOptions toFixed w state =
     [ \<lparr>opt_type = CREATE_AGENT,
        opt_weight = calculateCreateAgentWeight w state,
        opt_reasoning = getCreateAgentReasoning state,
        opt_parameters = Some []\<rparr>,
       \<lparr>opt_type = COORDINATE_AGENTS,
        opt_weight = calculateCoordinateWeight w state,
        opt_reasoning = getCoordinateReasoning state,
        opt_parameters = Some [(''targetAgents'', map agent_id (activeAgents state))]\<rparr>,
       \<lparr>opt_type = EVOLVE_STRATEGY,
        opt_weight = calculateEvolveWeight w state,
        opt_reasoning = getEvolveReasoning toFixed state,
        opt_parameters = Some []\<rparr>,
       \<lparr>opt_type = WAIT_AND_OBSERVE,
        opt_weight = calculateWaitWeight w state,
        opt_reasoning = getWaitReasoning state,
        opt_parameters = Some []\<rparr>,
       \<lparr>opt_type = DELEGATE_TASK,
        opt_weight = calculateDelegateTaskWeight w state,
        opt_reasoning = getDelegateTaskReasoning state,
        opt_parameters = Some [(''candidateAgents'', map agent_id (childAgentsOf state))]\<rparr>,
       \<lparr>opt_type = ANALYZE_PERFORMANCE,
        opt_weight = calculateAnalyzeWeight w state,
        opt_reasoning = getAnalyzeReasoning state,
        opt_parameters = Some []\<rparr> ]"

text \<open>
  \<open>applyRandomness\<close>; \<open>u\<close> is the value \<open>Math.random()\<close> returned, a number in \<open>[0, 1)\<close>.
\<close>

definition applyRandomness :: "real \<Rightarrow> real \<Rightarrow> real \<Rightarrow> real" where
  "applyRandomness weight variance u = weight * (1 + (u * 2 - 1) * variance)"

text \<open>
  The random source is the sequence \<open>rng 0, rng 1, ...\<close> of the values \<open>Math.random()\<close>
  returns, in call order: the \<open>map\<close> over the options draws \<open>rng 0 .. rng (n - 1)\<close>, the
  selection draws \<open>rng n\<close>.
\<close>

fun randomizeFrom :: "(nat \<Rightarrow> real) \<Rightarrow> nat \<Rightarrow> DecisionOption list \<Rightarrow> DecisionOption list" where
  "randomizeFrom rng i [] = []"
| "randomizeFrom rng i (option # rest) =
     option\<lparr>opt_weight := applyRandomness (opt_weight option) 0.2 (rng i)\<rparr>
       # randomizeFrom rng (Suc i) rest"

text \<open>\<open>reduce((sum, opt) => sum + opt.weight, 0)\<close>.\<close>

definition totalWeightOf :: "DecisionOption list \<Rightarrow> real" where
  "totalWeightOf opts = foldl (\<lambda>sum opt. sum + opt_weight opt) 0 opts"

definition normalizeBy :: "real \<Rightarrow> DecisionOption list \<Rightarrow> DecisionOption list" where
  "normalizeBy totalWeight opts =
     map (\<lambda>opt. opt\<lparr>opt_weight := opt_weight opt / totalWeight\<rparr>) opts"

text \<open>The \<open>for\<close> loop of the selection; \<open>None\<close> when it runs off the end of the list.\<close>

fun pickCumulative :: "real \<Rightarrow> real \<Rightarrow> DecisionOption list \<Rightarrow> DecisionOption option" where
  "pickCumulative random cumulative [] = None"
| "pickCumulative random cumulative (option # rest) =
     (let cumulative = cumulative + opt_weight option
      in if random \<le> cumulative then Some option
         else pickCumulative random cumulative rest)"

text \<open>
  When the jittered weights sum to zero the source divides by zero, and the normalised
  weights and the cumulative sum are no longer finite numbers. The values of the
  cumulative sum are then the finite numbers, the two infinities and \<open>NaN\<close>.
\<close>

datatype ieee = Finite real | Infinity | NegInfinity | NaN

text \<open>\<open>x / 0\<close> for a finite \<open>x\<close>.\<close>

definition divideByZero :: "real \<Rightarrow> ieee" where
  "divideByZero x = (if x > 0 then Infinity else if x < 0 then NegInfinity else NaN)"

text \<open>Addition: \<open>NaN\<close> absorbs, and the two infinities add up to \<open>NaN\<close>.\<close>

fun ieeeAdd :: "ieee \<Rightarrow> ieee \<Rightarrow> ieee" where
  "ieeeAdd NaN y = NaN"
| "ieeeAdd x NaN = NaN"
| "ieeeAdd Infinity NegInfinity = NaN"
| "ieeeAdd NegInfinity Infinity = NaN"
| "ieeeAdd Infinity y = Infinity"
| "ieeeAdd x Infinity = Infinity"
| "ieeeAdd NegInfinity y = NegInfinity"
| "ieeeAdd x NegInfinity = NegInfinity"
| "ieeeAdd (Finite a) (Finite b) = Finite (a + b)"

text \<open>\<open>random <= cumulative\<close> for a finite \<open>random\<close>; no comparison with \<open>NaN\<close> holds.\<close>

fun ieeeLe :: "real \<Rightarrow> ieee \<Rightarrow> bool" where
  "ieeeLe r (Finite c) = (r \<le> c)"
| "ieeeLe r Infinity = True"
| "ieeeLe r NegInfinity = False"
| "ieeeLe r NaN = False"

text \<open>
  The selection loop on a zero total, over the jittered options. The weight field of an
  option returned here is an infinity; the model leaves the quotient there.
\<close>

fun pickZeroTotal :: "real \<Rightarrow> ieee \<Rightarrow> DecisionOption list \<Rightarrow> DecisionOption option" where
  "pickZeroTotal random cumulative [] = None"
| "pickZeroTotal random cumulative (option # rest) =
     (let cumulative = ieeeAdd cumulative (divideByZero (opt_weight option))
      in if ieeeLe random cumulative
         then Some (option\<lparr>opt_weight := opt_weight option / 0\<rparr>)
         else pickZeroTotal random cumulative rest)"

text \<open>
  \<open>selectDecision\<close>. The result is \<open>None\<close> where the source returns \<open>undefined\<close>
  (index \<open>-1\<close> of an empty array).
\<close>

definition selectDecision :: "(nat \<Rightarrow> real) \<Rightarrow> DecisionOption list \<Rightarrow> DecisionOption option" where
  "selectDecision rng options =
     (let randomizedOptions = randomizeFrom rng 0 options;
          totalWeight = totalWeightOf randomizedOptions;
          normalizedOptions = normalizeBy totalWeight randomizedOptions;
          random = rng (length options);
          found = (if totalWeight = 0 then pickZeroTotal random (Finite 0) randomizedOptions
                   else pickCumulative random 0 normalizedOptions)
      in case found of
           Some option \<Rightarrow> Some option
         | None \<Rightarrow> (if normalizedOptions = [] then None else Some (last normalizedOptions)))"

subsection \<open>Selection with rounded arithmetic\<close>

text \<open>
  The numbers of the source are doubles: every arithmetic operation returns the exact
  result rounded to a double. The functions below are the selection functions above
  with each operation followed by a rounding \<open>rnd\<close>; the exact functions are the case
  where \<open>rnd\<close> changes nothing. Constants stand for their decimal value, and overflow to
  an infinity is not modelled.
\<close>

definition applyRandomnessRounded :: "(real \<Rightarrow> real) \<Rightarrow> real \<Rightarrow> real \<Rightarrow> real \<Rightarrow> real" where
  "applyRandomnessRounded rnd weight variance u =
     (let randomFactor = rnd (1 + rnd (rnd (rnd (u * 2) - 1) * variance))
      in rnd (weight * randomFactor))"

fun randomizeFromRounded ::
  "(real \<Rightarrow> real) \<Rightarrow> (nat \<Rightarrow> real) \<Rightarrow> nat \<Rightarrow> DecisionOption list \<Rightarrow> DecisionOption list" where
  "randomizeFromRounded rnd rng i [] = []"
| "randomizeFromRounded rnd rng i (option # rest) =
     option\<lparr>opt_weight := applyRandomnessRounded rnd (opt_weight option) 0.2 (rng i)\<rparr>
       # randomizeFromRounded rnd rng (Suc i) rest"

definition totalWeightOfRounded :: "(real \<Rightarrow> real) \<Rightarrow> DecisionOption list \<Rightarrow> real" where
  "totalWeightOfRounded rnd opts = foldl (\<lambda>sum opt. rnd (sum + opt_weight opt)) 0 opts"

definition normalizeByRounded ::
  "(real \<Rightarrow> real) \<Rightarrow> real \<Rightarrow> DecisionOption list \<Rightarrow> DecisionOption list" where
  "normalizeByRounded rnd totalWeight opts =
     map (\<lambda>opt. opt\<lparr>opt_weight := rnd (opt_weight opt / totalWeight)\<rparr>) opts"

fun pickCumulativeRounded ::
  "(real \<Rightarrow> real) \<Rightarrow> real \<Rightarrow> real \<Rightarrow> DecisionOption list \<Rightarrow> DecisionOption option" where
  "pickCumulativeRounded rnd random cumulative [] = None"
| "pickCumulativeRounded rnd random cumulative (option # rest) =
     (let cumulative = rnd (cumulative + opt_weight option)
      in if random \<le> cumulative then Some option
         else pickCumulativeRounded rnd random cumulative rest)"

definition selectDecisionRounded ::
  "(real \<Rightarrow> real) \<Rightarrow> (nat \<Rightarrow> real) \<Rightarrow> DecisionOption list \<Rightarrow> DecisionOption option" where
  "selectDecisionRounded rnd rng options =
     (let randomizedOptions = randomizeFromRounded rnd rng 0 options;
          totalWeight = totalWeightOfRounded rnd randomizedOptions;
          normalizedOptions = normalizeByRounded rnd totalWeight randomizedOptions;
          random = rng (length options);
          found = (if totalWeight = 0 then pickZeroTotal random (Finite 0) randomizedOptions
                   else pickCumulativeRounded rnd random 0 normalizedOptions)
      in case found of
           Some option \<Rightarrow> Some option
         | None \<Rightarrow> (if normalizedOptions = [] then None else Some (last normalizedOptions)))"

text \<open>
  The cumulative sum the loop compares the draw with at the option of index \<open>k\<close>.
\<close>

definition cumulativeAt :: "(real \<Rightarrow> real) \<Rightarrow> DecisionOption list \<Rightarrow> nat \<Rightarrow> real" where
  "cumulativeAt rnd opts k =
     foldl (\<lambda>cumulative opt. rnd (cumulative + opt_weight opt)) 0 (take (Suc k) opts)"

text \<open>
  \<open>createDecision\<close>; \<open>idHex\<close> is the hex string of the eight random bytes, \<open>now\<close> the
  value of \<open>Date.now()\<close>.
\<close>

definition createDecision :: "string \<Rightarrow> int \<Rightarrow> DecisionOption \<Rightarrow> string \<Rightarrow> Decision" where
  "createDecision idHex now option madeBy' =
     \<lparr>dec_id = ''decision_'' @ idHex,
      dec_type = opt_type option,
      dec_reasoning = opt_reasoning option,
      dec_parameters = (case opt_parameters option of Some p \<Rightarrow> p | None \<Rightarrow> []),
      dec_timestamp = now,
      confidence = opt_weight option,
      madeBy = madeBy',
      dec_agentId = Some madeBy'\<rparr>"

subsection \<open>Weights snapshot\<close>

fun typeName :: "DecisionType \<Rightarrow> string" where
  "typeName CREATE_AGENT = ''CREATE_AGENT''"
| "typeName COORDINATE_AGENTS = ''COORDINATE_AGENTS''"
| "typeName EVOLVE_STRATEGY = ''EVOLVE_STRATEGY''"
| "typeName WAIT_AND_OBSERVE = ''WAIT_AND_OBSERVE''"
| "typeName DELEGATE_TASK = ''DELEGATE_TASK''"
| "typeName ANALYZE_PERFORMANCE = ''ANALYZE_PERFORMANCE''"

text \<open>\<open>getWeightsSnapshot\<close>: the entries of the weight record, in the order of its keys.\<close>

definition getWeightsSnapshot :: "weights \<Rightarrow> (string \<times> real) list" where
  "getWeightsSnapshot w =
     map (\<lambda>t. (typeName t, w t))
       [CREATE_AGENT, COORDINATE_AGENTS, EVOLVE_STRATEGY, WAIT_AND_OBSERVE, DELEGATE_TASK,
        ANALYZE_PERFORMANCE]"

section \<open>Autonomy loop: reason, decide, evolve\<close>

record Reasoning =
  observation :: string
  analysis :: string
  rs_options :: "DecisionOption list"
  recommendation :: DecisionOption
  rs_confidence :: real

definition GENESIS_ID :: string where
  "GENESIS_ID = ''genesis_root''"

text \<open>The em dash of the source's texts, as its three UTF-8 bytes.\<close>

definition emDash :: string where
  "emDash = [CHR 0xE2, CHR 0x80, CHR 0x94]"

definition generateAnalysis :: "SystemState \<Rightarrow> string" where
  "generateAnalysis state =
     (if agentCount state = 0
      then ''No agents exist. System needs bootstrap agent to begin operations.''
      else if agentCount state < 3
      then ''Agent count below minimum threshold. Prioritizing agent creation.''
      else if agentCount state \<ge> 5
      then ''Sufficient agents exist. Focus on task delegation, coordination and optimization.''
      else ''Agent ecosystem balanced. Evaluating best action '' @ emDash @
           '' may delegate tasks or coordinate agents.'')"

text \<open>
  \<open>reason\<close>. Reading \<open>recommendation.weight\<close> of an \<open>undefined\<close> recommendation throws;
  that is the result \<open>None\<close>.
\<close>

definition reason ::
  "(real \<Rightarrow> nat \<Rightarrow> string) \<Rightarrow> weights \<Rightarrow> (nat \<Rightarrow> real) \<Rightarrow> SystemState \<Rightarrow> Reasoning option" where
  "reason toFixed w rng state =
     (let options = generateOptions toFixed w state
      in case selectDecision rng options of
           None \<Rightarrow> None
         | Some recommendation' \<Rightarrow>
             Some \<lparr>observation =
                     ''System has '' @ showNat (agentCount state) @ '' active agents, '' @
                     showNat (length (recentDecisions state)) @ '' recent decisions'',
                   analysis = generateAnalysis state,
                   rs_options = options,
                   recommendation = recommendation',
                   rs_confidence = opt_weight recommendation'\<rparr>)"

definition decide :: "string \<Rightarrow> int \<Rightarrow> Reasoning \<Rightarrow> Decision" where
  "decide idHex now reasoning = createDecision idHex now (recommendation reasoning) GENESIS_ID"

text \<open>
  Modelled from the spec: the memory store's aggregate record and evolution log
  (\<open>MemorySystem.getMetrics\<close>, \<open>updateMetrics\<close> and \<open>logEvolution\<close>; the source file of the
  memory system is not part of the sources). The aggregate is a single record, read and
  written as a whole; \<open>updateMetrics\<close> overwrites the fields of its patch and stamps
  \<open>lastUpdated\<close>; the evolution log is append-only.
\<close>

record Memory =
  mem_metrics :: SystemMetrics
  mem_evolution :: "EvolutionEvent list"

definition getMetrics :: "Memory \<Rightarrow> SystemMetrics" where
  "getMetrics mem = mem_metrics mem"

definition updateMetrics_evolutionScore :: "int \<Rightarrow> real \<Rightarrow> Memory \<Rightarrow> Memory" where
  "updateMetrics_evolutionScore now newScore mem =
     mem\<lparr>mem_metrics := (mem_metrics mem)\<lparr>evolutionScore := newScore, lastUpdated := now\<rparr>\<rparr>"

definition logEvolution :: "EvolutionEvent \<Rightarrow> Memory \<Rightarrow> Memory" where
  "logEvolution event mem = mem\<lparr>mem_evolution := mem_evolution mem @ [event]\<rparr>"

text \<open>
  \<open>evolve\<close>, on the engine's weights and the memory. \<open>u\<close> is the value of the
  \<open>Math.random()\<close> that decides whether an event is recorded, \<open>idHex\<close> the event's random
  identifier, \<open>now\<close> the clock.
\<close>

definition evolve ::
  "(real \<Rightarrow> nat \<Rightarrow> string) \<Rightarrow> real \<Rightarrow> string \<Rightarrow> int \<Rightarrow> ActionResult \<Rightarrow> weights \<times> Memory
     \<Rightarrow> weights \<times> Memory" where
  "evolve toFixed u idHex now result' s =
     (let t = dec_type (res_decision result');
          weightsBefore = fst s;
          weightsAfter = updateWeights weightsBefore t (success result');
          event =
            \<lparr>ev_id = ''evolution_'' @ idHex,
             ev_type = (if success result' then PERFORMANCE_IMPROVEMENT else ERROR_LEARNING),
             ev_description =
               typeName t @ '': weight '' @
               (if success result' then ''increased'' else ''decreased'') @ '' from '' @
               toFixed (weightsBefore t) 3 @ '' to '' @ toFixed (weightsAfter t) 3,
             ev_before = getWeightsSnapshot weightsBefore,
             ev_after = getWeightsSnapshot weightsAfter,
             ev_timestamp = now,
             triggeredBy = dec_id (res_decision result')\<rparr>;
          mem = (if u < 0.5 then logEvolution event (snd s) else snd s);
          metrics = getMetrics mem;
          newScore = min 1.0 (evolutionScore metrics + (if success result' then 0.01 else - 0.005))
      in (weightsAfter, updateMetrics_evolutionScore now newScore mem))"

section \<open>Agent factory: choosing a role\<close>

text \<open>\<open>Object.values(AgentRole)\<close>, in declaration order.\<close>

definition allRoles :: "AgentRole list" where
  "allRoles = [EXPLORER, BUILDER, ANALYST, COORDINATOR, GUARDIAN]"

text \<open>
  \<open>Map<AgentRole, number>\<close> as an association list in insertion order; \<open>set\<close> on a key
  that is present keeps its position.
\<close>

fun mapSet :: "('k \<times> 'v) list \<Rightarrow> 'k \<Rightarrow> 'v \<Rightarrow> ('k \<times> 'v) list" where
  "mapSet [] k v = [(k, v)]"
| "mapSet ((k', v') # rest) k v =
     (if k' = k then (k, v) # rest else (k', v') # mapSet rest k v)"

definition countRole :: "(AgentRole \<times> nat) list \<Rightarrow> Agent \<Rightarrow> (AgentRole \<times> nat) list" where
  "countRole roleCounts agent =
     (let count = (case map_of roleCounts (agent_role agent) of Some c \<Rightarrow> c | None \<Rightarrow> 0)
      in mapSet roleCounts (agent_role agent) (count + 1))"

definition countByRole :: "Agent list \<Rightarrow> (AgentRole \<times> nat) list" where
  "countByRole agents = foldl countRole (map (\<lambda>role. (role, 0)) allRoles) agents"

text \<open>\<open>Math.min(...values)\<close>; the minimum of no values is \<open>Infinity\<close>, here \<open>None\<close>.\<close>

fun mathMin :: "nat list \<Rightarrow> nat option" where
  "mathMin [] = None"
| "mathMin (x # xs) = (case mathMin xs of None \<Rightarrow> Some x | Some m \<Rightarrow> Some (min x m))"

definition underrepresentedRoles :: "SystemState \<Rightarrow> AgentRole list" where
  "underrepresentedRoles context' =
     (let roleCounts = countByRole (activeAgents context');
          minCount = mathMin (map snd roleCounts)
      in map fst (filter (\<lambda>(role, count). Some count = minCount) roleCounts))"

text \<open>
  \<open>selectRole\<close>; \<open>u\<close> is the value of \<open>Math.random()\<close>. An index outside the array reads
  \<open>undefined\<close>, the result \<open>None\<close>.
\<close>

definition selectRole :: "real \<Rightarrow> SystemState \<Rightarrow> AgentRole option" where
  "selectRole u context' =
     (let roles = underrepresentedRoles context';
          i = \<lfloor>u * real (length roles)\<rfloor>
      in if 0 \<le> i \<and> nat i < length roles then Some (roles ! nat i) else None)"

section \<open>Agent coordinator: health reports\<close>

datatype HealthStatus = HEALTHY | DEGRADED | CRITICAL

record AgentReport =
  rep_agentId :: string
  rep_role :: AgentRole
  tasksCompleted :: nat
  tasksFailed :: nat
  successRate :: real
  avgTaskDuration :: real
  rep_lastActive :: int
  healthStatus :: HealthStatus

text \<open>\<open>generateAgentReport\<close>; \<open>now\<close> is the value of \<open>Date.now()\<close>.\<close>

definition generateAgentReport :: "int \<Rightarrow> Agent \<Rightarrow> AgentReport" where
  "generateAgentReport now agent =
     (let totalTasks = successCount (metadata agent) + failureCount (metadata agent);
          successRate' = (if totalTasks > 0
                          then real (successCount (metadata agent)) / real totalTasks
                          else 1.0);
          timeSinceActive = now - lastActive (metadata agent);
          healthStatus' =
            (if successRate' < 0.3 \<or> timeSinceActive > 300000 then CRITICAL
             else if successRate' < 0.6 \<or> timeSinceActive > 120000 then DEGRADED
             else HEALTHY)
      in \<lparr>rep_agentId = agent_id agent,
          rep_role = agent_role agent,
          tasksCompleted = successCount (metadata agent),
          tasksFailed = failureCount (metadata agent),
          successRate = successRate',
          avgTaskDuration = 0,
          rep_lastActive = lastActive (metadata agent),
          healthStatus = healthStatus'\<rparr>)"

text \<open>
  The first step of \<open>coordinateAgents\<close>: one report per active agent other than the root,
  each with its own reading \<open>clock i\<close> of the clock.
\<close>

definition coordinationReports :: "(nat \<Rightarrow> int) \<Rightarrow> SystemState \<Rightarrow> AgentReport list" where
  "coordinationReports clock state =
     map (\<lambda>(i, agent). generateAgentReport (clock i) agent)
       (enumerate 0 (filter (\<lambda>a. agent_id a \<noteq> ''genesis_root'') (activeAgents state)))"

text \<open>
  The classification as the specification words it: the success rate is the share of
  successful tasks, taken as \<open>1\<close> when no task was run; critical below \<open>0.3\<close> or after
  more than five minutes of idleness, degraded below \<open>0.6\<close> or after more than two
  minutes, healthy otherwise.
\<close>

definition spec_successRate :: "Agent \<Rightarrow> real" where
  "spec_successRate agent =
     (if successCount (metadata agent) + failureCount (metadata agent) = 0 then 1
      else real (successCount (metadata agent)) /
           real (successCount (metadata agent) + failureCount (metadata agent)))"

definition spec_idle :: "int \<Rightarrow> Agent \<Rightarrow> int" where
  "spec_idle now agent = now - lastActive (metadata agent)"

section \<open>Transaction submission\<close>

text \<open>A thrown value, with the message it carries.\<close>

datatype error = Error string

text \<open>
  The network, as seen by one call of \<open>submitTransaction\<close>: \<open>sendAndConfirm n b\<close> is the
  outcome of \<open>sendAndConfirmTransaction\<close> in attempt \<open>n\<close>, made while the transaction
  carries the blockhash \<open>b\<close>; \<open>latestBlockhash n\<close> is the outcome of the
  \<open>getLatestBlockhash\<close> request that follows the failure of attempt \<open>n\<close>. Either call
  returns a value (\<open>Inr\<close>) or throws (\<open>Inl\<close>). Logging is not modelled.
\<close>

record Network =
  sendAndConfirm :: "nat \<Rightarrow> string \<Rightarrow> error + string"
  latestBlockhash :: "nat \<Rightarrow> error + string"

text \<open>What the call does, in order: attempts, waits and blockhash requests.\<close>

datatype NetEvent = Attempt nat string | Sleep nat | FetchBlockhash

text \<open>
  The loop of \<open>submitTransaction\<close> from attempt number \<open>attempt\<close> on. The result is what
  the call returns or throws, the blockhash the transaction object is left with, and the
  events so far.
\<close>

function submitFrom ::
  "Network \<Rightarrow> nat \<Rightarrow> nat \<Rightarrow> string \<Rightarrow> NetEvent list \<Rightarrow> (error + string) \<times> string \<times> NetEvent list"
  where
  "submitFrom net maxRetries attempt recentBlockhash trace =
     (if attempt \<le> maxRetries then
        (case sendAndConfirm net attempt recentBlockhash of
           Inr signature \<Rightarrow>
             (Inr signature, recentBlockhash, trace @ [Attempt attempt recentBlockhash])
         | Inl err \<Rightarrow>
             if attempt = maxRetries
             then (Inl err, recentBlockhash, trace @ [Attempt attempt recentBlockhash])
             else (case latestBlockhash net attempt of
                     Inl err' \<Rightarrow>
                       (Inl err', recentBlockhash,
                        trace @ [Attempt attempt recentBlockhash, Sleep (1000 * attempt),
                                 FetchBlockhash])
                   | Inr blockhash \<Rightarrow>
                       submitFrom net maxRetries (attempt + 1) blockhash
                         (trace @ [Attempt attempt recentBlockhash, Sleep (1000 * attempt),
                                   FetchBlockhash])))
      else (Inl (Error ''Transaction failed after all retries''), recentBlockhash, trace))"
  by pat_completeness auto
termination
  by (relation "measure (\<lambda>(net, maxRetries, attempt, b, trace). Suc maxRetries - attempt)") auto

declare submitFrom.simps [simp del]

definition submitTransaction ::
  "Network \<Rightarrow> nat \<Rightarrow> string \<Rightarrow> (error + string) \<times> string \<times> NetEvent list" where
  "submitTransaction net maxRetries recentBlockhash =
     submitFrom net maxRetries 1 recentBlockhash []"

text \<open>The attempts an event list records.\<close>

fun isAttempt :: "NetEvent \<Rightarrow> bool" where
  "isAttempt (Attempt n b) = True"
| "isAttempt _ = False"

definition attemptsIn :: "NetEvent list \<Rightarrow> nat" where
  "attemptsIn trace = length (filter isAttempt trace)"

section \<open>Task executor\<close>

datatype TaskStatus = TASK_PENDING | TASK_IN_PROGRESS | TASK_COMPLETED | TASK_FAILED

record TaskAssignment =
  task_id :: string
  task_agentId :: string
  task_type :: string
  task_description :: string
  assignedAt :: int
  completedAt :: "int option"
  task_status :: TaskStatus
  task_result :: "string option"
  onChainTx :: "string option"

fun roleName :: "AgentRole \<Rightarrow> string" where
  "roleName EXPLORER = ''EXPLORER''"
| "roleName BUILDER = ''BUILDER''"
| "roleName ANALYST = ''ANALYST''"
| "roleName COORDINATOR = ''COORDINATOR''"
| "roleName GUARDIAN = ''GUARDIAN''"

text \<open>
  The collaborators of one \<open>executeTask\<close> call. \<open>runRoleTask\<close> is the outcome of the
  role's task method (\<open>executeExplorerTask\<close> and its four siblings): the report it returns
  or the error it throws. \<open>getWallet\<close> looks the root wallet up (\<open>Inr False\<close>: there is
  none), \<open>getKeypair\<close> and \<open>updateTransactionCount\<close> throw or succeed,
  \<open>buildMemoTransaction\<close> returns the blockhash of the transaction it builds, \<open>network\<close>
  answers the submission, and \<open>saveAgent\<close> persists an agent or throws.
\<close>

record TaskEnv =
  taskIdHex :: string
  taskStart :: int
  taskEnd :: int
  activeAt :: int
  runRoleTask :: "AgentRole \<Rightarrow> Agent \<Rightarrow> error + string"
  getWallet :: "error + bool"
  getKeypair :: "error option"
  buildMemoTransaction :: "error + string"
  network :: Network
  updateTransactionCount :: "error option"
  saveAgent :: "Agent \<Rightarrow> error option"

text \<open>
  \<open>logTaskOnChain\<close>: everything thrown inside is caught, and the result is the signature
  or \<open>undefined\<close>.
\<close>

definition logTaskOnChain :: "TaskEnv \<Rightarrow> string option" where
  "logTaskOnChain env =
     (case getWallet env of
        Inl err \<Rightarrow> None
      | Inr False \<Rightarrow> None
      | Inr True \<Rightarrow>
          (case getKeypair env of
             Some err \<Rightarrow> None
           | None \<Rightarrow>
               (case buildMemoTransaction env of
                  Inl err \<Rightarrow> None
                | Inr blockhash \<Rightarrow>
                    (case fst (submitTransaction (network env) 3 blockhash) of
                       Inl err \<Rightarrow> None
                     | Inr signature \<Rightarrow>
                         (case updateTransactionCount env of
                            Some err \<Rightarrow> None
                          | None \<Rightarrow> Some signature)))))"

text \<open>\<open>error instanceof Error ? error.message : String(error)\<close>.\<close>

fun errorMessage :: "error \<Rightarrow> string" where
  "errorMessage (Error message) = message"

text \<open>
  The \<open>catch\<close> block of \<open>executeTask\<close>, entered with the task and the agent as the
  \<open>try\<close> block left them. A throw of \<open>saveAgent\<close> in here leaves the call.
\<close>

definition executeTask_catch ::
  "TaskEnv \<Rightarrow> TaskAssignment \<Rightarrow> Agent \<Rightarrow> error \<Rightarrow> (error + TaskAssignment) \<times> Agent" where
  "executeTask_catch env task agent err =
     (let task = task\<lparr>task_status := TASK_FAILED,
                      completedAt := Some (taskEnd env),
                      task_result := Some (errorMessage err)\<rparr>;
          agent = agent\<lparr>metadata := (metadata agent)
                    \<lparr>failureCount := failureCount (metadata agent) + 1,
                     currentTask := None\<rparr>\<rparr>
      in case saveAgent env agent of
           Some err' \<Rightarrow> (Inl err', agent)
         | None \<Rightarrow> (Inr task, agent))"

text \<open>
  \<open>executeTask\<close>. The result is the task returned or the error thrown, together with
  the agent object as the call leaves it. The role switch has one case per role; its
  \<open>default\<close> branch is not reached by a value of the enum.
\<close>

definition executeTask :: "TaskEnv \<Rightarrow> Agent \<Rightarrow> (error + TaskAssignment) \<times> Agent" where
  "executeTask env agent =
     (let taskId = ''task_'' @ taskIdHex env;
          task = \<lparr>task_id = taskId,
                  task_agentId = agent_id agent,
                  task_type = roleName (agent_role agent) @ ''_TASK'',
                  task_description = [],
                  assignedAt = taskStart env,
                  completedAt = None,
                  task_status = TASK_IN_PROGRESS,
                  task_result = None,
                  onChainTx = None\<rparr>
      in case runRoleTask env (agent_role agent) agent of
           Inl err \<Rightarrow> executeTask_catch env task agent err
         | Inr result' \<Rightarrow>
             (let task = task\<lparr>task_status := TASK_COMPLETED,
                              completedAt := Some (taskEnd env),
                              task_result := Some result',
                              task_description :=
                                roleName (agent_role agent) @ '' task: '' @ take 80 result'\<rparr>;
                  txSignature = logTaskOnChain env;
                  task = task\<lparr>onChainTx := txSignature\<rparr>;
                  agent = agent\<lparr>metadata := (metadata agent)
                            \<lparr>successCount := successCount (metadata agent) + 1,
                             lastActive := activeAt env,
                             currentTask := None,
                             taskHistory := taskHistory (metadata agent) @ [taskId],
                             missionProgress :=
                               min 100 (missionProgress (metadata agent) + 10)\<rparr>\<rparr>
              in case saveAgent env agent of
                   Some err \<Rightarrow> executeTask_catch env task agent err
                 | None \<Rightarrow> (Inr task, agent)))"

definition spec_health :: "int \<Rightarrow> Agent \<Rightarrow> HealthStatus" where
  "spec_health now agent =
     (if spec_successRate agent < 0.3 \<or> spec_idle now agent > 300000 then CRITICAL
      else if spec_successRate agent < 0.6 \<or> spec_idle now agent > 120000 then DEGRADED
      else HEALTHY)"

section \<open>Durable memory store\<close>















section \<open>Notions of the specification\<close>

text \<open>
  Two options are the same option when they agree on type, reasoning and parameters;
  the weight is what selection changes.
\<close>

definition sameOption :: "DecisionOption \<Rightarrow> DecisionOption \<Rightarrow> bool" where
  "sameOption a b \<longleftrightarrow>
     opt_type a = opt_type b \<and> opt_reasoning a = opt_reasoning b \<and>
     opt_parameters a = opt_parameters b"

text \<open>
  The Decision of one cycle: the loop passes the observed state to \<open>reason\<close> and its
  result to \<open>decide\<close>.
\<close>

definition cycleDecision ::
  "(real \<Rightarrow> nat \<Rightarrow> string) \<Rightarrow> weights \<Rightarrow> (nat \<Rightarrow> real) \<Rightarrow> string \<Rightarrow> int \<Rightarrow> SystemState
     \<Rightarrow> Decision option" where
  "cycleDecision toFixed w rng idHex now state =
     map_option (decide idHex now) (reason toFixed w rng state)"

text \<open>
  How many of the state's active agents have a role, and what it means for a role to be
  least represented among the five supported roles.
\<close>

definition roleCount :: "SystemState \<Rightarrow> AgentRole \<Rightarrow> nat" where
  "roleCount context' role =
     length (filter (\<lambda>a. agent_role a = role) (activeAgents context'))"

definition leastRepresented :: "SystemState \<Rightarrow> AgentRole \<Rightarrow> bool" where
  "leastRepresented context' role \<longleftrightarrow>
     (\<forall>r \<in> set allRoles. roleCount context' role \<le> roleCount context' r)"

section \<open>Concrete inputs\<close>

text \<open>The states, call sequences and networks the examples below are evaluated on.\<close>

definition sampleAgent :: "nat \<Rightarrow> Agent" where
  "sampleAgent i =
     \<lparr>agent_id = ''agent_'' @ showNat i,
      agent_role = EXPLORER,
      mission = ''test'',
      walletAddress = ''addr'',
      createdAt = 0,
      createdBy = ''genesis'',
      agent_status = ACTIVE,
      metadata = \<lparr>creationTx = [], missionProgress = 0, lastActive = 0, successCount = 0,
                   failureCount = 0, currentTask = None, taskHistory = []\<rparr>\<rparr>"

text \<open>The state the tests build: \<open>n\<close> active agents, no recent decisions, score \<open>0.5\<close>.\<close>

definition mockState :: "nat \<Rightarrow> SystemState" where
  "mockState n =
     \<lparr>agentCount = n,
      activeAgents = map sampleAgent [0..<n],
      recentDecisions = [],
      walletBalances = Map.empty,
      evolutionMetrics =
        \<lparr>em_evolutionScore = 0.5, totalEvolutions = 0, lastEvolutionTime = 0\<rparr>,
      st_timestamp = 0\<rparr>"

text \<open>
  Five failed creations followed by fifteen successful coordinations: the create weight
  is at its floor and the coordinate weight at its cap.
\<close>

definition createDepressed :: "(DecisionType \<times> bool) list" where
  "createDepressed =
     replicate 5 (CREATE_AGENT, False) @ replicate 15 (COORDINATE_AGENTS, True)"

text \<open>A network on which the first send fails and so does the blockhash request.\<close>

definition refreshFails :: Network where
  "refreshFails =
     \<lparr>sendAndConfirm = (\<lambda>n b. Inl (Error ''send failed'')),
      latestBlockhash = (\<lambda>n. Inl (Error ''blockhash unavailable''))\<rparr>"

text \<open>A network on which the first two sends fail and the third is confirmed.\<close>

definition thirdSucceeds :: Network where
  "thirdSucceeds =
     \<lparr>sendAndConfirm = (\<lambda>n b. if n = 3 then Inr (''sig_'' @ b) else Inl (Error ''send failed'')),
      latestBlockhash = (\<lambda>n. if n = 1 then Inr ''b1'' else Inr ''b2'')\<rparr>"

text \<open>An agent with one success in four tasks, last active at time \<open>0\<close>.\<close>

definition strugglingAgent :: Agent where
  "strugglingAgent =
     (sampleAgent 1)\<lparr>metadata := (metadata (sampleAgent 1))\<lparr>successCount := 1, failureCount := 3\<rparr>\<rparr>"

text \<open>
  Two options of equal weight; three options of equal weight; and three options whose
  weights \<open>-2, 1, 1\<close> sum to zero.
\<close>

definition twoOptions :: "DecisionOption list" where
  "twoOptions =
     [\<lparr>opt_type = CREATE_AGENT, opt_weight = 0.5, opt_reasoning = ''grow'',
       opt_parameters = Some []\<rparr>,
      \<lparr>opt_type = WAIT_AND_OBSERVE, opt_weight = 0.5, opt_reasoning = ''wait'',
       opt_parameters = None\<rparr>]"

definition threeOptions :: "DecisionOption list" where
  "threeOptions =
     [\<lparr>opt_type = CREATE_AGENT, opt_weight = 1, opt_reasoning = ''grow'',
       opt_parameters = Some []\<rparr>,
      \<lparr>opt_type = COORDINATE_AGENTS, opt_weight = 1, opt_reasoning = ''coordinate'',
       opt_parameters = Some []\<rparr>,
      \<lparr>opt_type = EVOLVE_STRATEGY, opt_weight = 1, opt_reasoning = ''evolve'',
       opt_parameters = None\<rparr>]"

definition cancellingOptions :: "DecisionOption list" where
  "cancellingOptions = (hd threeOptions)\<lparr>opt_weight := - 2\<rparr> # tl threeOptions"

text \<open>
  A random source that always returns \<open>0.5\<close> (no jitter), and one whose fourth value,
  the selection draw over three options, is \<open>0.95\<close>.
\<close>

definition evenDraws :: "nat \<Rightarrow> real" where
  "evenDraws i = 0.5"

definition highDraw :: "nat \<Rightarrow> real" where
  "highDraw i = (if i = 3 then 0.95 else 0.5)"

text \<open>
  Two roundings: none at all, and rounding to the nearest tenth, a coarse stand-in for
  the rounding of doubles under which three thirds add up to \<open>0.9\<close>.
\<close>

definition exact :: "real \<Rightarrow> real" where
  "exact x = x"

definition roundTenth :: "real \<Rightarrow> real" where
  "roundTenth x = real_of_int \<lfloor>x * 10 + 1 / 2\<rfloor> / 10"

text \<open>A stand-in for \<open>toFixed\<close> on the score \<open>0.5\<close>.\<close>

definition fixedText :: "real \<Rightarrow> nat \<Rightarrow> string" where
  "fixedText x digits = ''0.50''"

text \<open>
  Collaborators of a task: the role task reports, the store saves, and the network is
  down; and the same with a role task that throws.
\<close>

definition offlineEnv :: TaskEnv where
  "offlineEnv =
     \<lparr>taskIdHex = ''00ff'', taskStart = 10, taskEnd = 20, activeAt = 30,
      runRoleTask = (\<lambda>role agent. Inr ''Network scan complete''),
      getWallet = Inr True, getKeypair = None, buildMemoTransaction = Inr ''b0'',
      network = refreshFails, updateTransactionCount = None,
      saveAgent = (\<lambda>agent. None)\<rparr>"

definition brokenTaskEnv :: TaskEnv where
  "brokenTaskEnv =
     offlineEnv\<lparr>runRoleTask := (\<lambda>role agent. Inl (Error ''wallet store unreadable''))\<rparr>"


section \<open>Properties of the decision engine\<close>

subsection \<open>Base weights stay within their bounds\<close>

lemma updateWeights_range:
  "0.05 \<le> w t' \<Longrightarrow> w t' \<le> 0.9 \<Longrightarrow>
   0.05 \<le> updateWeights w t s t' \<and> updateWeights w t s t' \<le> 0.9"
  by (auto simp add: updateWeights_def Let_def max_def min_def)

lemma initialWeights_range: "0.05 \<le> initialWeights t \<and> initialWeights t \<le> 0.9"
  by (cases t) simp_all

lemma updateAll_range:
  "(\<And>t. 0.05 \<le> w t \<and> w t \<le> 0.9) \<Longrightarrow>
   0.05 \<le> updateAll w calls t \<and> updateAll w calls t \<le> 0.9"
proof (induction calls arbitrary: w t)
  case Nil
  then show ?case by simp
next
  case (Cons c calls)
  obtain t' s where c: "c = (t', s)" by (cases c)
  have "\<And>u. 0.05 \<le> updateWeights w t' s u \<and> updateWeights w t' s u \<le> 0.9"
    using Cons.prems updateWeights_range by blast
  then show ?case unfolding c updateAll.simps by (rule Cons.IH)
qed

lemma updateAll_append: "updateAll w (xs @ ys) = updateAll (updateAll w xs) ys"
  by (induction xs arbitrary: w) auto

lemma cap_step:
  "0 \<le> (m::real) \<Longrightarrow>
   min 0.9 (min 0.9 (x + 0.05) + 0.05 * m) = min 0.9 (x + 0.05 * (m + 1))"
  by (auto simp: min_def field_simps)

lemma floor_step:
  "0 \<le> (m::real) \<Longrightarrow>
   max 0.05 (max 0.05 (x - 0.05) - 0.05 * m) = max 0.05 (x - 0.05 * (m + 1))"
  by (auto simp: max_def field_simps)

lemma repeat_success:
  "0.05 \<le> w t \<Longrightarrow> w t \<le> 0.9 \<Longrightarrow>
   updateAll w (replicate n (t, True)) t = min 0.9 (w t + 0.05 * real n)"
proof (induction n arbitrary: w)
  case 0
  then show ?case by simp
next
  case (Suc n)
  let ?w = "updateWeights w t True"
  have v: "?w t = min 0.9 (w t + 0.05)"
    using Suc.prems by (simp add: updateWeights_def Let_def)
  have "updateAll ?w (replicate n (t, True)) t = min 0.9 (?w t + 0.05 * real n)"
    by (rule Suc.IH) (use Suc.prems v in \<open>auto simp: max_def min_def\<close>)
  then show ?case using v cap_step [of "real n" "w t"] by (simp add: add.commute)
qed

lemma repeat_failure:
  "0.05 \<le> w t \<Longrightarrow> w t \<le> 0.9 \<Longrightarrow>
   updateAll w (replicate n (t, False)) t = max 0.05 (w t - 0.05 * real n)"
proof (induction n arbitrary: w)
  case 0
  then show ?case by simp
next
  case (Suc n)
  let ?w = "updateWeights w t False"
  have v: "?w t = max 0.05 (w t - 0.05)"
    using Suc.prems by (simp add: updateWeights_def Let_def)
  have "updateAll ?w (replicate n (t, False)) t = max 0.05 (?w t - 0.05 * real n)"
    by (rule Suc.IH) (use Suc.prems v in \<open>auto simp: max_def min_def\<close>)
  then show ?case using v floor_step [of "real n" "w t"] by (simp add: add.commute)
qed

text \<open>
  Claim C2. Start from the base weights the constructor sets and apply any finite
  sequence \<open>calls\<close> of \<open>updateWeights\<close> calls. Every component of the weight vector is
  then within \<open>[0.05, 0.9]\<close>. Following the sequence with \<open>n\<close> successes for one action
  type leaves that type's weight at exactly \<open>0.9\<close> for every \<open>n \<ge> 17\<close> (it reaches the cap
  and stays there), and following it with \<open>n\<close> failures leaves the weight at exactly
  \<open>0.05\<close> for every \<open>n \<ge> 17\<close>. Seventeen steps of \<open>0.05\<close> span the whole interval.
\<close>

theorem updateWeights_bounds_and_saturation:
  "0.05 \<le> updateAll initialWeights calls t \<and> updateAll initialWeights calls t \<le> 0.9 \<and>
   (\<forall>n\<ge>17. updateAll initialWeights (calls @ replicate n (t, True)) t = 0.9) \<and>
   (\<forall>n\<ge>17. updateAll initialWeights (calls @ replicate n (t, False)) t = 0.05)"
proof -
  let ?w = "updateAll initialWeights calls"
  have r: "0.05 \<le> ?w t \<and> ?w t \<le> 0.9"
    by (rule updateAll_range) (rule initialWeights_range)
  have up: "updateAll initialWeights (calls @ replicate n (t, True)) t = 0.9"
    if "17 \<le> n" for n
  proof -
    have "real n \<ge> 17" using that by simp
    then have "?w t + 0.05 * real n \<ge> 0.9" using r by simp
    then show ?thesis using r by (simp add: updateAll_append repeat_success)
  qed
  have down: "updateAll initialWeights (calls @ replicate n (t, False)) t = 0.05"
    if "17 \<le> n" for n
  proof -
    have "real n \<ge> 17" using that by simp
    then have "?w t - 0.05 * real n \<le> 0.05" using r by simp
    then show ?thesis using r by (simp add: updateAll_append repeat_failure)
  qed
  show ?thesis using r up down by blast
qed

theorem updateWeights_bounds_and_saturation_witness:
  "updateAll initialWeights
     ([(CREATE_AGENT, False)] @ replicate 17 (CREATE_AGENT, True)) CREATE_AGENT = 0.9 \<and>
   updateAll initialWeights
     ([(CREATE_AGENT, True)] @ replicate 17 (CREATE_AGENT, False)) CREATE_AGENT = 0.05"
  using updateWeights_bounds_and_saturation [of "[(CREATE_AGENT, False)]" CREATE_AGENT]
        updateWeights_bounds_and_saturation [of "[(CREATE_AGENT, True)]" CREATE_AGENT]
  by simp

subsection \<open>Create against coordinate\<close>

lemma createDepressed_create: "updateAll initialWeights createDepressed CREATE_AGENT = 0.05"
  by (simp add: createDepressed_def updateWeights_def Let_def eval_nat_numeral)

lemma createDepressed_coordinate:
  "updateAll initialWeights createDepressed COORDINATE_AGENTS = 0.9"
  by (simp add: createDepressed_def updateWeights_def Let_def eval_nat_numeral)

text \<open>
  Claim C8, as stated, fails: the base weights are learned, and after five failed
  creations and fifteen successful coordinations an engine observing no entity gives
  the create option the weight \<open>0.0875\<close> and the coordinate option \<open>0.45\<close>.
\<close>

theorem create_below_coordinate_when_empty:
  "\<not> calculateCreateAgentWeight (updateAll initialWeights createDepressed) (mockState 0)
      > calculateCoordinateWeight (updateAll initialWeights createDepressed) (mockState 0)"
  by (simp add: calculateCreateAgentWeight_def calculateCoordinateWeight_def
        createDepressed_create createDepressed_coordinate mockState_def Let_def)

text \<open>
  Claim C8, amended. For the base weights the constructor sets, an engine observing
  0 entities weighs create strictly above coordinate, and one observing 6 entities
  weighs coordinate strictly above create. For the base weights reached after any
  sequence of \<open>updateWeights\<close> calls, the first order holds exactly when
  \<open>1.75 * create > 0.5 * coordinate\<close> and the second exactly when
  \<open>2 * coordinate > 0.25 * create\<close>, the clamps never changing the order.
\<close>

theorem create_coordinate_order:
  "(agentCount state = 0 \<longrightarrow>
      calculateCreateAgentWeight initialWeights state
        > calculateCoordinateWeight initialWeights state \<and>
      (calculateCreateAgentWeight (updateAll initialWeights calls) state
         > calculateCoordinateWeight (updateAll initialWeights calls) state
       \<longleftrightarrow> 1.75 * updateAll initialWeights calls CREATE_AGENT
            > 0.5 * updateAll initialWeights calls COORDINATE_AGENTS)) \<and>
   (agentCount state = 6 \<longrightarrow>
      calculateCoordinateWeight initialWeights state
        > calculateCreateAgentWeight initialWeights state \<and>
      (calculateCoordinateWeight (updateAll initialWeights calls) state
         > calculateCreateAgentWeight (updateAll initialWeights calls) state
       \<longleftrightarrow> 2.0 * updateAll initialWeights calls COORDINATE_AGENTS
            > 0.25 * updateAll initialWeights calls CREATE_AGENT))"
proof -
  let ?w = "updateAll initialWeights calls"
  have rc: "0.05 \<le> ?w CREATE_AGENT \<and> ?w CREATE_AGENT \<le> 0.9"
    by (rule updateAll_range) (rule initialWeights_range)
  have ro: "0.05 \<le> ?w COORDINATE_AGENTS \<and> ?w COORDINATE_AGENTS \<le> 0.9"
    by (rule updateAll_range) (rule initialWeights_range)
  show ?thesis using rc ro
    by (auto simp add: calculateCreateAgentWeight_def calculateCoordinateWeight_def Let_def
          max_def min_def)
qed

theorem create_coordinate_order_witness:
  "agentCount (mockState 0) = 0 \<and>
   calculateCreateAgentWeight initialWeights (mockState 0)
     > calculateCoordinateWeight initialWeights (mockState 0) \<and>
   agentCount (mockState 6) = 6 \<and>
   calculateCoordinateWeight initialWeights (mockState 6)
     > calculateCreateAgentWeight initialWeights (mockState 6)"
  using create_coordinate_order [of "mockState 0" "[]"]
        create_coordinate_order [of "mockState 6" "[]"]
  by (simp add: mockState_def)

section \<open>Properties of the evolve phase\<close>

lemma evolve_score:
  "evolutionScore (getMetrics (snd (evolve toFixed u idHex now result (w, mem)))) =
     min 1.0 (evolutionScore (getMetrics mem) + (if success result then 0.01 else - 0.005))"
  by (simp add: evolve_def Let_def getMetrics_def updateMetrics_evolutionScore_def
        logEvolution_def)

lemma evolve_score_upper:
  "evolutionScore (getMetrics (snd (evolve toFixed u idHex now result (w, mem)))) \<le> 1"
  by (simp add: evolve_score)

text \<open>
  Claim C1 at its failing input. With the aggregate score at \<open>0\<close>, a failed cycle leaves
  the score at \<open>-0.005\<close>: \<open>evolve\<close> bounds the new score from above only.
\<close>

theorem evolve_failed_cycle_below_zero:
  "evolutionScore (getMetrics (snd (evolve toFixed u idHex now (result\<lparr>success := False\<rparr>)
      (w, mem\<lparr>mem_metrics := (mem_metrics mem)\<lparr>evolutionScore := 0\<rparr>\<rparr>)))) = - 0.005"
  by (simp add: evolve_def Let_def getMetrics_def updateMetrics_evolutionScore_def
        logEvolution_def)

section \<open>Properties of the health reports\<close>

lemma report_successRate:
  "successRate (generateAgentReport now agent) = spec_successRate agent"
  by (simp add: generateAgentReport_def spec_successRate_def Let_def)

lemma report_healthStatus:
  "healthStatus (generateAgentReport now agent) = spec_health now agent"
proof (cases "successCount (metadata agent) + failureCount (metadata agent) = 0")
  case True
  then show ?thesis
    by (simp add: generateAgentReport_def spec_health_def spec_successRate_def spec_idle_def
          Let_def)
next
  case False
  then have "successCount (metadata agent) + failureCount (metadata agent) > 0" by simp
  then show ?thesis using False
    by (simp only: generateAgentReport_def spec_health_def spec_successRate_def spec_idle_def
          Let_def AgentReport.simps if_True if_False)
qed

text \<open>
  Claim C6. The health status in an agent's report is the classification of the
  specification: critical exactly when the success rate (1 when no task was run) is
  below \<open>0.3\<close> or the agent has been idle for more than 300000 ms; otherwise degraded
  exactly when the rate is below \<open>0.6\<close> or the idle time is above 120000 ms; otherwise
  healthy. The reports of a coordination round carry these classifications, agent by
  agent.
\<close>

theorem health_classification:
  "healthStatus (generateAgentReport now agent) = spec_health now agent \<and>
   successRate (generateAgentReport now agent) = spec_successRate agent \<and>
   (healthStatus (generateAgentReport now agent) = CRITICAL \<longleftrightarrow>
      spec_successRate agent < 0.3 \<or> spec_idle now agent > 300000) \<and>
   (healthStatus (generateAgentReport now agent) = DEGRADED \<longleftrightarrow>
      \<not> (spec_successRate agent < 0.3 \<or> spec_idle now agent > 300000) \<and>
      (spec_successRate agent < 0.6 \<or> spec_idle now agent > 120000)) \<and>
   (healthStatus (generateAgentReport now agent) = HEALTHY \<longleftrightarrow>
      \<not> (spec_successRate agent < 0.3 \<or> spec_idle now agent > 300000) \<and>
      \<not> (spec_successRate agent < 0.6 \<or> spec_idle now agent > 120000)) \<and>
   map healthStatus (coordinationReports clock state) =
     map (\<lambda>(i, a). spec_health (clock i) a)
       (enumerate 0 (filter (\<lambda>a. agent_id a \<noteq> ''genesis_root'') (activeAgents state)))"
proof -
  have m: "map healthStatus (coordinationReports clock state) =
     map (\<lambda>(i, a). spec_health (clock i) a)
       (enumerate 0 (filter (\<lambda>a. agent_id a \<noteq> ''genesis_root'') (activeAgents state)))"
    by (simp add: coordinationReports_def report_healthStatus split_def)
  show ?thesis unfolding report_healthStatus report_successRate using m
    by (simp add: spec_health_def)
qed

theorem health_classification_witness:
  "healthStatus (generateAgentReport 1000 strugglingAgent) = CRITICAL \<and>
   spec_successRate strugglingAgent = 0.25 \<and>
   healthStatus (generateAgentReport 130000 (sampleAgent 1)) = DEGRADED \<and>
   healthStatus (generateAgentReport 1000 (sampleAgent 1)) = HEALTHY"
  using health_classification [of 1000 strugglingAgent "\<lambda>i. 0" "mockState 0"]
        health_classification [of 130000 "sampleAgent 1" "\<lambda>i. 0" "mockState 0"]
        health_classification [of 1000 "sampleAgent 1" "\<lambda>i. 0" "mockState 0"]
  by (simp add: spec_health_def spec_successRate_def spec_idle_def strugglingAgent_def
        sampleAgent_def)

section \<open>Properties of transaction submission\<close>

lemma submitFrom_success:
  "attempt \<le> maxRetries \<Longrightarrow> sendAndConfirm net attempt b = Inr s \<Longrightarrow>
   submitFrom net maxRetries attempt b trace = (Inr s, b, trace @ [Attempt attempt b])"
  by (subst submitFrom.simps) simp

lemma submitFrom_last_failure:
  "sendAndConfirm net maxRetries b = Inl e \<Longrightarrow>
   submitFrom net maxRetries maxRetries b trace = (Inl e, b, trace @ [Attempt maxRetries b])"
  by (subst submitFrom.simps) simp

lemma submitFrom_refresh_failure:
  "attempt < maxRetries \<Longrightarrow> sendAndConfirm net attempt b = Inl e \<Longrightarrow>
   latestBlockhash net attempt = Inl e' \<Longrightarrow>
   submitFrom net maxRetries attempt b trace =
     (Inl e', b, trace @ [Attempt attempt b, Sleep (1000 * attempt), FetchBlockhash])"
  by (subst submitFrom.simps) simp

lemma submitFrom_retry:
  "attempt < maxRetries \<Longrightarrow> sendAndConfirm net attempt b = Inl e \<Longrightarrow>
   latestBlockhash net attempt = Inr b' \<Longrightarrow>
   submitFrom net maxRetries attempt b trace =
     submitFrom net maxRetries (attempt + 1) b'
       (trace @ [Attempt attempt b, Sleep (1000 * attempt), FetchBlockhash])"
  by (subst submitFrom.simps) simp

lemma submitFrom_exhausted:
  "maxRetries < attempt \<Longrightarrow>
   submitFrom net maxRetries attempt b trace =
     (Inl (Error ''Transaction failed after all retries''), b, trace)"
  by (subst submitFrom.simps) simp

text \<open>From attempt \<open>attempt\<close> on, at most \<open>maxRetries + 1 - attempt\<close> attempts are made.\<close>

lemma attempts_bound:
  "attemptsIn (snd (snd (submitFrom net maxRetries attempt b trace))) \<le>
     attemptsIn trace + (Suc maxRetries - attempt)"
proof (induction net maxRetries attempt b trace rule: submitFrom.induct)
  case (1 net maxRetries attempt b trace)
  consider (exhausted) "maxRetries < attempt"
    | (ok) s where "attempt \<le> maxRetries" "sendAndConfirm net attempt b = Inr s"
    | (last) e where "attempt = maxRetries" "sendAndConfirm net attempt b = Inl e"
    | (norefresh) e e' where "attempt < maxRetries" "sendAndConfirm net attempt b = Inl e"
        "latestBlockhash net attempt = Inl e'"
    | (retry) e b' where "attempt < maxRetries" "sendAndConfirm net attempt b = Inl e"
        "latestBlockhash net attempt = Inr b'"
    by (cases "sendAndConfirm net attempt b"; cases "latestBlockhash net attempt") force+
  then show ?case
  proof cases
    case exhausted
    then show ?thesis by (simp add: submitFrom_exhausted)
  next
    case ok
    then show ?thesis by (simp add: submitFrom_success attemptsIn_def)
  next
    case last
    then show ?thesis by (simp add: submitFrom_last_failure attemptsIn_def)
  next
    case norefresh
    then show ?thesis by (simp add: submitFrom_refresh_failure attemptsIn_def)
  next
    case retry
    have "attemptsIn (snd (snd (submitFrom net maxRetries (attempt + 1) b'
            (trace @ [Attempt attempt b, Sleep (1000 * attempt), FetchBlockhash]))))
          \<le> attemptsIn (trace @ [Attempt attempt b, Sleep (1000 * attempt), FetchBlockhash])
              + (Suc maxRetries - (attempt + 1))"
      using "1.IH" retry by simp
    then show ?thesis using retry by (simp add: submitFrom_retry attemptsIn_def)
  qed
qed

text \<open>
  Claim C3 at its failing input. The blockhash request that precedes a retry is awaited
  inside the \<open>catch\<close> block, outside any \<open>try\<close>. On a network where the first send
  fails and the blockhash request that follows fails too, the call makes one attempt and
  ends with the error of the blockhash request: attempt 1 failed and was not retried,
  and the error that leaves the call is not that of a third attempt.
\<close>

theorem failed_attempt_not_retried:
  "sendAndConfirm refreshFails 1 ''b0'' = Inl (Error ''send failed'') \<and>
   submitTransaction refreshFails 3 ''b0'' =
     (Inl (Error ''blockhash unavailable''), ''b0'',
      [Attempt 1 ''b0'', Sleep 1000, FetchBlockhash]) \<and>
   attemptsIn (snd (snd (submitTransaction refreshFails 3 ''b0''))) = 1"
  using submitFrom_refresh_failure [of 1 3 refreshFails "''b0''" "Error ''send failed''"
          "Error ''blockhash unavailable''" "[]"]
  by (simp add: submitTransaction_def refreshFails_def attemptsIn_def)

text \<open>
  The runs of a submission with three attempts. While the blockhash requests succeed,
  a failed attempt \<open>n < 3\<close> is followed by a wait of \<open>1000 * n\<close> ms and by attempt
  \<open>n + 1\<close> with the fresh blockhash, a successful attempt returns its signature, and
  the error of a failed third attempt leaves the call unchanged. The two remaining runs
  are those in which a blockhash request throws.
\<close>

lemma submitTransaction_runs:
  "attemptsIn (snd (snd (submitTransaction net 3 b0))) \<le> 3 \<and>
   (\<forall>s. sendAndConfirm net 1 b0 = Inr s \<longrightarrow>
      submitTransaction net 3 b0 = (Inr s, b0, [Attempt 1 b0])) \<and>
   (\<forall>e1 e. sendAndConfirm net 1 b0 = Inl e1 \<and> latestBlockhash net 1 = Inl e \<longrightarrow>
      submitTransaction net 3 b0 = (Inl e, b0, [Attempt 1 b0, Sleep 1000, FetchBlockhash])) \<and>
   (\<forall>e1 b1 s. sendAndConfirm net 1 b0 = Inl e1 \<and> latestBlockhash net 1 = Inr b1 \<and>
      sendAndConfirm net 2 b1 = Inr s \<longrightarrow>
      submitTransaction net 3 b0 =
        (Inr s, b1, [Attempt 1 b0, Sleep 1000, FetchBlockhash, Attempt 2 b1])) \<and>
   (\<forall>e1 b1 e2 e. sendAndConfirm net 1 b0 = Inl e1 \<and> latestBlockhash net 1 = Inr b1 \<and>
      sendAndConfirm net 2 b1 = Inl e2 \<and> latestBlockhash net 2 = Inl e \<longrightarrow>
      submitTransaction net 3 b0 =
        (Inl e, b1, [Attempt 1 b0, Sleep 1000, FetchBlockhash,
                     Attempt 2 b1, Sleep 2000, FetchBlockhash])) \<and>
   (\<forall>e1 b1 e2 b2 s. sendAndConfirm net 1 b0 = Inl e1 \<and> latestBlockhash net 1 = Inr b1 \<and>
      sendAndConfirm net 2 b1 = Inl e2 \<and> latestBlockhash net 2 = Inr b2 \<and>
      sendAndConfirm net 3 b2 = Inr s \<longrightarrow>
      submitTransaction net 3 b0 =
        (Inr s, b2, [Attempt 1 b0, Sleep 1000, FetchBlockhash,
                     Attempt 2 b1, Sleep 2000, FetchBlockhash, Attempt 3 b2])) \<and>
   (\<forall>e1 b1 e2 b2 e3. sendAndConfirm net 1 b0 = Inl e1 \<and> latestBlockhash net 1 = Inr b1 \<and>
      sendAndConfirm net 2 b1 = Inl e2 \<and> latestBlockhash net 2 = Inr b2 \<and>
      sendAndConfirm net 3 b2 = Inl e3 \<longrightarrow>
      submitTransaction net 3 b0 =
        (Inl e3, b2, [Attempt 1 b0, Sleep 1000, FetchBlockhash,
                      Attempt 2 b1, Sleep 2000, FetchBlockhash, Attempt 3 b2]))"
proof -
  have a: "attemptsIn (snd (snd (submitTransaction net 3 b0))) \<le> 3"
    using attempts_bound [of net 3 1 b0 "[]"] by (simp add: submitTransaction_def attemptsIn_def)
  have n: "(1::nat) + 1 = 2" "(2::nat) + 1 = 3" "1000 * (1::nat) = 1000" "1000 * (2::nat) = 2000"
    by simp_all
  have l: "(1::nat) \<le> 3" "(2::nat) \<le> 3" "(3::nat) \<le> 3" "(1::nat) < 3" "(2::nat) < 3"
    by simp_all
  note ap = append_Nil append_Cons
  have c1: "submitTransaction net 3 b0 = (Inr s, b0, [Attempt 1 b0])"
    if "sendAndConfirm net 1 b0 = Inr s" for s
    unfolding submitTransaction_def
    using submitFrom_success [OF l(1) that, of "[]"] by (simp only: ap)
  have c2: "submitTransaction net 3 b0 = (Inl e, b0, [Attempt 1 b0, Sleep 1000, FetchBlockhash])"
    if "sendAndConfirm net 1 b0 = Inl e1" "latestBlockhash net 1 = Inl e" for e1 e
    unfolding submitTransaction_def
    using submitFrom_refresh_failure [OF l(4) that, of "[]"] by (simp only: ap n)
  have r1: "submitTransaction net 3 b0 =
              submitFrom net 3 2 b1 [Attempt 1 b0, Sleep 1000, FetchBlockhash]"
    if "sendAndConfirm net 1 b0 = Inl e1" "latestBlockhash net 1 = Inr b1" for e1 b1
    unfolding submitTransaction_def
    using submitFrom_retry [OF l(4) that, of "[]"] by (simp only: ap n)
  have c3: "submitFrom net 3 2 b1 [Attempt 1 b0, Sleep 1000, FetchBlockhash] =
              (Inr s, b1, [Attempt 1 b0, Sleep 1000, FetchBlockhash, Attempt 2 b1])"
    if "sendAndConfirm net 2 b1 = Inr s" for b1 s
    using submitFrom_success [OF l(2) that, of "[Attempt 1 b0, Sleep 1000, FetchBlockhash]"]
    by (simp only: ap)
  have c4: "submitFrom net 3 2 b1 [Attempt 1 b0, Sleep 1000, FetchBlockhash] =
              (Inl e, b1, [Attempt 1 b0, Sleep 1000, FetchBlockhash,
                           Attempt 2 b1, Sleep 2000, FetchBlockhash])"
    if "sendAndConfirm net 2 b1 = Inl e2" "latestBlockhash net 2 = Inl e" for b1 e2 e
    using submitFrom_refresh_failure [OF l(5) that,
            of "[Attempt 1 b0, Sleep 1000, FetchBlockhash]"]
    by (simp only: ap n)
  have r2: "submitFrom net 3 2 b1 [Attempt 1 b0, Sleep 1000, FetchBlockhash] =
              submitFrom net 3 3 b2 [Attempt 1 b0, Sleep 1000, FetchBlockhash,
                                     Attempt 2 b1, Sleep 2000, FetchBlockhash]"
    if "sendAndConfirm net 2 b1 = Inl e2" "latestBlockhash net 2 = Inr b2" for b1 e2 b2
    using submitFrom_retry [OF l(5) that, of "[Attempt 1 b0, Sleep 1000, FetchBlockhash]"]
    by (simp only: ap n)
  have c5: "submitFrom net 3 3 b2 tr = (Inr s, b2, tr @ [Attempt 3 b2])"
    if "sendAndConfirm net 3 b2 = Inr s" for b2 s tr
    using submitFrom_success [OF l(3) that] .
  have c6: "submitFrom net 3 3 b2 tr = (Inl e3, b2, tr @ [Attempt 3 b2])"
    if "sendAndConfirm net 3 b2 = Inl e3" for b2 e3 tr
    using submitFrom_last_failure [OF that] .
  show ?thesis
  proof (intro conjI allI impI)
    show "attemptsIn (snd (snd (submitTransaction net 3 b0))) \<le> 3" by (rule a)
  qed (auto simp only: c1 c2 r1 c3 c4 r2 c5 c6 ap)
qed

lemma submitTransaction_runs_example:
  "submitTransaction thirdSucceeds 3 ''b0'' =
     (Inr ''sig_b2'', ''b2'', [Attempt 1 ''b0'', Sleep 1000, FetchBlockhash,
        Attempt 2 ''b1'', Sleep 2000, FetchBlockhash, Attempt 3 ''b2''])"
  using submitTransaction_runs [of thirdSucceeds "''b0''"]
  by (simp add: thirdSucceeds_def)

section \<open>Properties of selection\<close>

lemma length_randomizeFrom [simp]: "length (randomizeFrom rng i xs) = length xs"
  by (induction xs arbitrary: i) auto

lemma nth_randomizeFrom:
  "k < length xs \<Longrightarrow>
   randomizeFrom rng i xs ! k =
     (xs ! k)\<lparr>opt_weight := applyRandomness (opt_weight (xs ! k)) 0.2 (rng (i + k))\<rparr>"
proof (induction xs arbitrary: i k)
  case Nil
  then show ?case by simp
next
  case (Cons x xs)
  then show ?case by (cases k) auto
qed

lemma length_normalizeBy [simp]: "length (normalizeBy t xs) = length xs"
  by (simp add: normalizeBy_def)

lemma nth_normalizeBy:
  "k < length xs \<Longrightarrow> normalizeBy t xs ! k = (xs ! k)\<lparr>opt_weight := opt_weight (xs ! k) / t\<rparr>"
  by (simp add: normalizeBy_def)

lemma pickCumulative_mem: "pickCumulative r c xs = Some x \<Longrightarrow> x \<in> set xs"
  by (induction xs arbitrary: c) (auto simp: Let_def split: if_splits)

lemma pickZeroTotal_mem:
  "pickZeroTotal r c xs = Some x \<Longrightarrow>
   \<exists>y \<in> set xs. x = y\<lparr>opt_weight := opt_weight y / 0\<rparr>"
  by (induction xs arbitrary: c) (auto simp: Let_def split: if_splits)

lemma sameOption_nth_normalized:
  "k < length options \<Longrightarrow>
   sameOption (normalizeBy t (randomizeFrom rng 0 options) ! k) (options ! k)"
  by (simp add: nth_normalizeBy nth_randomizeFrom sameOption_def)

lemma selectDecision_index:
  assumes "options \<noteq> []"
  shows "\<exists>k<length options. \<exists>x.
     selectDecision rng options =
       Some ((options ! k)\<lparr>opt_weight := x\<rparr>) \<and>
     (totalWeightOf (randomizeFrom rng 0 options) \<noteq> 0 \<longrightarrow>
        x = applyRandomness (opt_weight (options ! k)) 0.2 (rng k)
              / totalWeightOf (randomizeFrom rng 0 options))"
proof -
  let ?R = "randomizeFrom rng 0 options"
  let ?T = "totalWeightOf ?R"
  let ?N = "normalizeBy ?T ?R"
  have nth: "?N ! k = (options ! k)\<lparr>opt_weight :=
                applyRandomness (opt_weight (options ! k)) 0.2 (rng k) / ?T\<rparr>"
    if "k < length options" for k
    using that by (simp add: nth_normalizeBy nth_randomizeFrom)
  have ne: "?N \<noteq> []" using assms by (metis length_0_conv length_normalizeBy length_randomizeFrom)
  have inN: "\<exists>k<length options. y = (options ! k)\<lparr>opt_weight :=
                applyRandomness (opt_weight (options ! k)) 0.2 (rng k) / ?T\<rparr>"
    if "y \<in> set ?N" for y
  proof -
    from that obtain k where "k < length ?N" "?N ! k = y" by (auto simp: in_set_conv_nth)
    then show ?thesis using nth by auto
  qed
  have lastN: "last ?N \<in> set ?N" using ne by simp
  show ?thesis
  proof (cases "?T = 0")
    case False
    show ?thesis
    proof (cases "pickCumulative (rng (length options)) 0 ?N")
      case None
      then have "selectDecision rng options = Some (last ?N)"
        using False ne by (simp add: selectDecision_def Let_def)
      then show ?thesis using inN [OF lastN] by auto
    next
      case (Some y)
      then have "selectDecision rng options = Some y"
        using False by (simp add: selectDecision_def Let_def)
      then show ?thesis using inN [OF pickCumulative_mem [OF Some]] by auto
    qed
  next
    case True
    show ?thesis
    proof (cases "pickZeroTotal (rng (length options)) (Finite 0) ?R")
      case None
      then have "selectDecision rng options = Some (last ?N)"
        using True ne by (simp add: selectDecision_def Let_def)
      then show ?thesis using inN [OF lastN] True by auto
    next
      case (Some y)
      then have s: "selectDecision rng options = Some y"
        using True by (simp add: selectDecision_def Let_def)
      from pickZeroTotal_mem [OF Some] obtain z where z: "z \<in> set ?R" "y = z\<lparr>opt_weight := opt_weight z / 0\<rparr>"
        by blast
      then obtain k where k: "k < length options" "?R ! k = z"
        by (auto simp: in_set_conv_nth)
      have zk: "z = (options ! k)\<lparr>opt_weight :=
                  applyRandomness (opt_weight (options ! k)) 0.2 (rng k)\<rparr>"
        using k by (simp add: nth_randomizeFrom)
      have "y = (options ! k)\<lparr>opt_weight := 0\<rparr>"
        unfolding z(2) by (subst zk, subst zk) simp
      then show ?thesis using s k True by auto
    qed
  qed
qed

subsection \<open>Membership and fallback\<close>

lemma pickZeroTotal_stuck:
  "c = NegInfinity \<or> c = NaN \<Longrightarrow> pickZeroTotal r c xs = None"
proof (induction xs arbitrary: c)
  case Nil
  then show ?case by simp
next
  case (Cons x xs)
  let ?c = "ieeeAdd c (divideByZero (opt_weight x))"
  have c': "?c = NegInfinity \<or> ?c = NaN"
    using Cons.prems by (auto simp: divideByZero_def)
  then have "\<not> ieeeLe r ?c" by auto
  moreover have "pickZeroTotal r ?c xs = None" using c' by (rule Cons.IH)
  ultimately show ?case by (simp add: Let_def)
qed

lemma pickZeroTotal_first:
  "xs \<noteq> [] \<Longrightarrow> \<not> 0 < opt_weight (hd xs) \<Longrightarrow> pickZeroTotal r (Finite 0) xs = None"
proof (cases xs)
  case Nil
  then show "xs \<noteq> [] \<Longrightarrow> \<not> 0 < opt_weight (hd xs) \<Longrightarrow> pickZeroTotal r (Finite 0) xs = None"
    by simp
next
  case (Cons x rest)
  assume "\<not> 0 < opt_weight (hd xs)"
  then have c: "ieeeAdd (Finite 0) (divideByZero (opt_weight x)) = NegInfinity \<or>
             ieeeAdd (Finite 0) (divideByZero (opt_weight x)) = NaN"
    using Cons by (auto simp: divideByZero_def)
  then have "\<not> ieeeLe r (ieeeAdd (Finite 0) (divideByZero (opt_weight x)))" by auto
  then show "pickZeroTotal r (Finite 0) xs = None"
    using Cons pickZeroTotal_stuck [OF c] by (simp add: Let_def)
qed

lemma length_randomizeFromRounded [simp]:
  "length (randomizeFromRounded rnd rng i xs) = length xs"
  by (induction xs arbitrary: i) auto

lemma sameOption_randomizeFromRounded:
  "k < length xs \<Longrightarrow> sameOption (randomizeFromRounded rnd rng i xs ! k) (xs ! k)"
proof (induction xs arbitrary: i k)
  case Nil
  then show ?case by simp
next
  case (Cons x xs)
  then show ?case by (cases k) (auto simp: sameOption_def)
qed

lemma length_normalizeByRounded [simp]: "length (normalizeByRounded rnd t xs) = length xs"
  by (simp add: normalizeByRounded_def)

lemma sameOption_rounded_nth:
  "k < length options \<Longrightarrow>
   sameOption (normalizeByRounded rnd t (randomizeFromRounded rnd rng 0 options) ! k)
     (options ! k)"
  using sameOption_randomizeFromRounded [of k options rnd rng 0]
  by (simp add: normalizeByRounded_def sameOption_def)

lemma pickCumulativeRounded_mem:
  "pickCumulativeRounded rnd r c xs = Some x \<Longrightarrow> x \<in> set xs"
  by (induction xs arbitrary: c) (auto simp: Let_def split: if_splits)

lemma pickCumulativeRounded_short:
  "(\<And>k. k < length xs \<Longrightarrow>
      foldl (\<lambda>cumulative opt. rnd (cumulative + opt_weight opt)) c (take (Suc k) xs) < r) \<Longrightarrow>
   pickCumulativeRounded rnd r c xs = None"
proof (induction xs arbitrary: c)
  case Nil
  then show ?case by simp
next
  case (Cons x xs)
  have first: "rnd (c + opt_weight x) < r" using Cons.prems [of 0] by simp
  have rest: "foldl (\<lambda>cumulative opt. rnd (cumulative + opt_weight opt))
                (rnd (c + opt_weight x)) (take (Suc k) xs) < r"
    if "k < length xs" for k
    using Cons.prems [of "Suc k"] that by simp
  have "pickCumulativeRounded rnd r (rnd (c + opt_weight x)) xs = None"
    by (rule Cons.IH) (rule rest)
  then show ?case using first by (simp add: Let_def)
qed

text \<open>Without rounding, the rounded selection is the exact one.\<close>

lemma randomizeFromRounded_exact:
  "randomizeFromRounded exact rng i xs = randomizeFrom rng i xs"
  by (induction xs arbitrary: i)
     (simp_all add: applyRandomnessRounded_def applyRandomness_def exact_def Let_def)

lemma pickCumulativeRounded_exact:
  "pickCumulativeRounded exact r c xs = pickCumulative r c xs"
  by (induction xs arbitrary: c) (simp_all add: exact_def Let_def)

lemma selectDecisionRounded_exact:
  "selectDecisionRounded exact rng options = selectDecision rng options"
  by (simp add: selectDecisionRounded_def selectDecision_def randomizeFromRounded_exact
        pickCumulativeRounded_exact totalWeightOfRounded_def totalWeightOf_def
        normalizeByRounded_def normalizeBy_def exact_def Let_def)

text \<open>
  Claim C5. For a non-empty list of options, any values of the random draws and any
  rounding of the arithmetic, \<open>selectDecision\<close> returns an option, and that option has
  the type, reasoning and parameters of one of the options passed in. When the rounded
  cumulative sum of the normalised weights stays below the selection draw at every
  option, the loop finds nothing and the last option of the normalised list is returned.
  The same happens when the jittered weights sum to zero and the first of them is not
  positive, the cumulative sum then being \<open>-Infinity\<close> or \<open>NaN\<close> throughout. The last
  option of the normalised list has the type, reasoning and parameters of the last
  option passed in.
\<close>

theorem selectDecision_member:
  assumes "options \<noteq> []"
  shows
    "(\<exists>option i. selectDecisionRounded rnd rng options = Some option \<and> i < length options \<and>
        sameOption option (options ! i)) \<and>
     (totalWeightOfRounded rnd (randomizeFromRounded rnd rng 0 options) \<noteq> 0 \<and>
      (\<forall>k<length options.
         cumulativeAt rnd
           (normalizeByRounded rnd
              (totalWeightOfRounded rnd (randomizeFromRounded rnd rng 0 options))
              (randomizeFromRounded rnd rng 0 options)) k
         < rng (length options)) \<longrightarrow>
      selectDecisionRounded rnd rng options =
        Some (last (normalizeByRounded rnd
                 (totalWeightOfRounded rnd (randomizeFromRounded rnd rng 0 options))
                 (randomizeFromRounded rnd rng 0 options)))) \<and>
     (totalWeightOfRounded rnd (randomizeFromRounded rnd rng 0 options) = 0 \<and>
      \<not> 0 < opt_weight (hd (randomizeFromRounded rnd rng 0 options)) \<longrightarrow>
      selectDecisionRounded rnd rng options =
        Some (last (normalizeByRounded rnd
                 (totalWeightOfRounded rnd (randomizeFromRounded rnd rng 0 options))
                 (randomizeFromRounded rnd rng 0 options)))) \<and>
     sameOption
       (last (normalizeByRounded rnd
                 (totalWeightOfRounded rnd (randomizeFromRounded rnd rng 0 options))
                 (randomizeFromRounded rnd rng 0 options)))
       (last options)"
proof -
  let ?R = "randomizeFromRounded rnd rng 0 options"
  let ?T = "totalWeightOfRounded rnd ?R"
  let ?N = "normalizeByRounded rnd ?T ?R"
  let ?r = "rng (length options)"
  have ne: "?N \<noteq> []" "?R \<noteq> []"
    using assms by (metis length_0_conv length_normalizeByRounded length_randomizeFromRounded,
        metis length_0_conv length_randomizeFromRounded)
  have inN: "\<exists>i<length options. sameOption y (options ! i)" if "y \<in> set ?N" for y
  proof -
    from that obtain k where "k < length ?N" "?N ! k = y" by (auto simp: in_set_conv_nth)
    then show ?thesis using sameOption_rounded_nth [of k options rnd ?T rng] by auto
  qed
  have lastN: "sameOption (last ?N) (last options)"
    using sameOption_rounded_nth [of "length options - 1" options rnd ?T rng] assms ne
    by (simp add: last_conv_nth)
  have a: "\<exists>option i. selectDecisionRounded rnd rng options = Some option \<and>
             i < length options \<and> sameOption option (options ! i)"
  proof (cases "?T = 0")
    case False
    show ?thesis
    proof (cases "pickCumulativeRounded rnd ?r 0 ?N")
      case None
      then have "selectDecisionRounded rnd rng options = Some (last ?N)"
        using False ne by (simp add: selectDecisionRounded_def Let_def)
      moreover have "last ?N \<in> set ?N" using ne by simp
      ultimately show ?thesis using inN by blast
    next
      case (Some y)
      then have "selectDecisionRounded rnd rng options = Some y"
        using False by (simp add: selectDecisionRounded_def Let_def)
      then show ?thesis using inN [OF pickCumulativeRounded_mem [OF Some]] by blast
    qed
  next
    case True
    show ?thesis
    proof (cases "pickZeroTotal ?r (Finite 0) ?R")
      case None
      then have "selectDecisionRounded rnd rng options = Some (last ?N)"
        using True ne by (simp add: selectDecisionRounded_def Let_def)
      moreover have "last ?N \<in> set ?N" using ne by simp
      ultimately show ?thesis using inN by blast
    next
      case (Some y)
      then have s: "selectDecisionRounded rnd rng options = Some y"
        using True by (simp add: selectDecisionRounded_def Let_def)
      from pickZeroTotal_mem [OF Some] obtain z where
        z: "z \<in> set ?R" "y = z\<lparr>opt_weight := opt_weight z / 0\<rparr>"
        by blast
      then obtain k where k: "k < length options" "?R ! k = z"
        by (auto simp: in_set_conv_nth)
      have "sameOption z (options ! k)"
        using sameOption_randomizeFromRounded [of k options rnd rng 0] k by simp
      then have "sameOption y (options ! k)" using z(2) by (simp add: sameOption_def)
      then show ?thesis using s k(1) by blast
    qed
  qed
  have b: "selectDecisionRounded rnd rng options = Some (last ?N)"
    if "?T \<noteq> 0" "\<forall>k<length options. cumulativeAt rnd ?N k < ?r"
  proof -
    have "pickCumulativeRounded rnd ?r 0 ?N = None"
      by (rule pickCumulativeRounded_short) (use that in \<open>simp add: cumulativeAt_def\<close>)
    then show ?thesis
      using that ne by (simp add: selectDecisionRounded_def Let_def)
  qed
  have c: "selectDecisionRounded rnd rng options = Some (last ?N)"
    if "?T = 0" "\<not> 0 < opt_weight (hd ?R)"
  proof -
    have "pickZeroTotal ?r (Finite 0) ?R = None"
      using pickZeroTotal_first [OF ne(2) that(2)] .
    then show ?thesis
      using that ne by (simp add: selectDecisionRounded_def Let_def)
  qed
  show ?thesis using a b c lastN by blast
qed

theorem selectDecision_member_witness:
  "twoOptions \<noteq> [] \<and> threeOptions \<noteq> [] \<and> cancellingOptions \<noteq> [] \<and>
   map_option opt_type (selectDecisionRounded exact evenDraws twoOptions)
     = Some CREATE_AGENT \<and>
   0 \<le> highDraw 3 \<and> highDraw 3 < 1 \<and>
   map (cumulativeAt roundTenth
          (normalizeByRounded roundTenth
             (totalWeightOfRounded roundTenth
                (randomizeFromRounded roundTenth highDraw 0 threeOptions))
             (randomizeFromRounded roundTenth highDraw 0 threeOptions))) [0, 1, 2]
     = [0.3, 0.6, 0.9] \<and>
   map_option opt_type (selectDecisionRounded roundTenth highDraw threeOptions)
     = Some EVOLVE_STRATEGY \<and>
   totalWeightOfRounded exact (randomizeFromRounded exact evenDraws 0 cancellingOptions) = 0 \<and>
   map_option opt_type (selectDecisionRounded exact evenDraws cancellingOptions)
     = Some EVOLVE_STRATEGY"
  using selectDecision_member [of twoOptions exact evenDraws]
        selectDecision_member [of threeOptions roundTenth highDraw]
        selectDecision_member [of cancellingOptions exact evenDraws]
  by (simp add: selectDecisionRounded_def twoOptions_def threeOptions_def cancellingOptions_def
        evenDraws_def highDraw_def exact_def Let_def applyRandomnessRounded_def
        totalWeightOfRounded_def normalizeByRounded_def cumulativeAt_def roundTenth_def
        divideByZero_def)

subsection \<open>The confidence of a decision\<close>

lemma foldl_total:
  "foldl (\<lambda>sum opt. sum + opt_weight opt) c xs = c + sum_list (map opt_weight xs)"
  by (induction xs arbitrary: c) auto

lemma total_positive:
  "xs \<noteq> [] \<Longrightarrow> (\<And>x. x \<in> set xs \<Longrightarrow> 0 < opt_weight x) \<Longrightarrow> 0 < totalWeightOf xs"
proof -
  assume ne: "xs \<noteq> []" and pos: "\<And>x. x \<in> set xs \<Longrightarrow> 0 < opt_weight x"
  have "ys \<noteq> [] \<Longrightarrow> (\<forall>x\<in>set ys. 0 < opt_weight x) \<Longrightarrow>
        0 < sum_list (map opt_weight ys)" for ys :: "DecisionOption list"
  proof (induction ys)
    case Nil
    then show ?case by simp
  next
    case (Cons y ys)
    then show ?case by (cases ys) (auto intro: add_pos_pos)
  qed
  then show ?thesis using ne pos by (simp add: totalWeightOf_def foldl_total)
qed

lemma applyRandomness_positive:
  "0 < weight \<Longrightarrow> 0 \<le> u \<Longrightarrow> 0 < applyRandomness weight 0.2 u"
proof -
  assume w: "0 < weight" and u: "0 \<le> u"
  have "(0::real) \<le> u * 2" using u by simp
  then have h: "0 < 1 + (u * 2 - 1) * 0.2" by (simp add: field_simps)
  show ?thesis unfolding applyRandomness_def using mult_pos_pos [OF w h] .
qed

lemma generateOptions_length [simp]: "length (generateOptions toFixed w state) = 6"
  by (simp add: generateOptions_def)

lemma generateOptions_weight:
  "x \<in> set (generateOptions toFixed w state) \<Longrightarrow> 0.05 \<le> opt_weight x \<and> opt_weight x \<le> 0.9"
  by (auto simp add: generateOptions_def calculateCreateAgentWeight_def
        calculateCoordinateWeight_def calculateEvolveWeight_def calculateWaitWeight_def
        calculateDelegateTaskWeight_def calculateAnalyzeWeight_def Let_def)

lemma randomized_positive:
  assumes "\<forall>i. 0 \<le> rng i \<and> rng i < 1"
    and "x \<in> set (randomizeFrom rng 0 (generateOptions toFixed w state))"
  shows "0 < opt_weight x"
proof -
  let ?G = "generateOptions toFixed w state"
  from assms(2) obtain k where k: "k < length ?G" "randomizeFrom rng 0 ?G ! k = x"
    by (auto simp: in_set_conv_nth)
  have "?G ! k \<in> set ?G" using k(1) by (rule nth_mem)
  then have "0.05 \<le> opt_weight (?G ! k)" using generateOptions_weight by blast
  then have "0 < opt_weight (?G ! k)" by simp
  moreover have "0 \<le> rng k" using assms(1) by simp
  ultimately have "0 < applyRandomness (opt_weight (?G ! k)) 0.2 (rng k)"
    by (rule applyRandomness_positive)
  moreover have "opt_weight x = applyRandomness (opt_weight (?G ! k)) 0.2 (rng k)"
    using k nth_randomizeFrom [of k ?G rng 0] by auto
  ultimately show ?thesis by simp
qed

text \<open>
  Claim C4, as stated, fails: \<open>selectDecision\<close> returns the option of its normalised
  list, so the weight it carries is the jittered weight divided by the sum of the
  jittered weights. For a fresh engine observing no entity, with every random draw at
  \<open>0.5\<close> (no jitter), the create option is selected; its weight from \<open>generateOptions\<close>
  is \<open>0.525\<close>, and the confidence of the Decision is \<open>0.525 / 0.92 = 105 / 184\<close>.
\<close>

theorem confidence_is_normalised_weight:
  "map_option dec_type
     (cycleDecision fixedText initialWeights evenDraws ''ab'' 0 (mockState 0))
     = Some CREATE_AGENT \<and>
   map_option confidence
     (cycleDecision fixedText initialWeights evenDraws ''ab'' 0 (mockState 0))
     = Some (105 / 184) \<and>
   map opt_type (generateOptions fixedText initialWeights (mockState 0)) ! 0
     = CREATE_AGENT \<and>
   map opt_weight (generateOptions fixedText initialWeights (mockState 0)) ! 0 = 0.525 \<and>
   map_option confidence
     (cycleDecision fixedText initialWeights evenDraws ''ab'' 0 (mockState 0))
     \<noteq> Some (map opt_weight (generateOptions fixedText initialWeights (mockState 0)) ! 0)"
  by (simp add: cycleDecision_def reason_def decide_def createDecision_def Let_def
        selectDecision_def generateOptions_def calculateCreateAgentWeight_def
        calculateCoordinateWeight_def calculateEvolveWeight_def calculateWaitWeight_def
        calculateDelegateTaskWeight_def calculateAnalyzeWeight_def mockState_def
        childAgentsOf_def evenDraws_def applyRandomness_def totalWeightOf_def normalizeBy_def)

text \<open>
  Claim C4, amended. With random draws in \<open>[0, 1)\<close>, every cycle produces a Decision;
  it carries the fresh identifier, the current time and the root agent as its maker, it
  has the type and reasoning of one of the six generated options, and its confidence is
  that option's weight after jitter and renormalisation: the weight from
  \<open>generateOptions\<close> times the option's jitter factor, divided by the sum of the jittered
  weights of all six options.
\<close>

theorem decision_confidence:
  assumes "\<forall>i. 0 \<le> rng i \<and> rng i < 1"
  shows "\<exists>d k. cycleDecision toFixed w rng idHex now state = Some d \<and> k < 6 \<and>
     dec_id d = ''decision_'' @ idHex \<and> dec_timestamp d = now \<and> madeBy d = GENESIS_ID \<and>
     dec_type d = opt_type (generateOptions toFixed w state ! k) \<and>
     dec_reasoning d = opt_reasoning (generateOptions toFixed w state ! k) \<and>
     confidence d =
       applyRandomness (opt_weight (generateOptions toFixed w state ! k)) 0.2 (rng k)
         / totalWeightOf (randomizeFrom rng 0 (generateOptions toFixed w state))"
proof -
  let ?G = "generateOptions toFixed w state"
  have ne: "?G \<noteq> []" by (simp add: generateOptions_def)
  have "randomizeFrom rng 0 ?G \<noteq> []"
    using ne by (metis length_0_conv length_randomizeFrom)
  then have pos: "0 < totalWeightOf (randomizeFrom rng 0 ?G)"
    by (rule total_positive) (rule randomized_positive [OF assms])
  from selectDecision_index [OF ne, of rng] obtain k x where
    k: "k < length ?G" and s: "selectDecision rng ?G = Some ((?G ! k)\<lparr>opt_weight := x\<rparr>)"
    and x: "x = applyRandomness (opt_weight (?G ! k)) 0.2 (rng k)
              / totalWeightOf (randomizeFrom rng 0 ?G)"
    using pos by auto
  have d: "cycleDecision toFixed w rng idHex now state =
             Some (createDecision idHex now ((?G ! k)\<lparr>opt_weight := x\<rparr>) GENESIS_ID)"
    using s by (simp add: cycleDecision_def reason_def decide_def Let_def)
  have k6: "k < 6" using k by simp
  show ?thesis
    by (rule exI [of _ "createDecision idHex now ((?G ! k)\<lparr>opt_weight := x\<rparr>) GENESIS_ID"],
        rule exI [of _ k])
       (simp add: d k6 x createDecision_def)
qed

theorem decision_confidence_witness:
  "(\<forall>i. 0 \<le> evenDraws i \<and> evenDraws i < 1) \<and>
   (\<exists>d. cycleDecision fixedText initialWeights evenDraws ''ab'' 7 (mockState 0) = Some d \<and>
        dec_id d = ''decision_ab'' \<and> dec_timestamp d = 7)"
proof -
  have h: "\<forall>i. 0 \<le> evenDraws i \<and> evenDraws i < 1"
    by (simp add: evenDraws_def)
  show ?thesis
    using h decision_confidence [OF h, of fixedText initialWeights "''ab''" 7 "mockState 0"]
    by auto
qed

section \<open>Properties of the task executor\<close>

lemma logTaskOnChain_offline: "logTaskOnChain offlineEnv = None"
  using submitFrom_refresh_failure [of 1 3 refreshFails "''b0''" "Error ''send failed''"
          "Error ''blockhash unavailable''" "[]"]
  by (simp add: logTaskOnChain_def offlineEnv_def submitTransaction_def refreshFails_def)

text \<open>
  Claim C10. When \<open>saveAgent\<close> succeeds, \<open>executeTask\<close> returns a task and does not
  throw. The task is completed exactly when the role's task method returned, and failed
  otherwise. On return the agent's current task is cleared; a completed task adds one
  to the success count and leaves the failure count, a failed task adds one to the
  failure count and leaves the success count. When the role's task returned and the
  on-chain logging produced no signature, the task is still completed and carries no
  transaction.
\<close>

theorem executeTask_returns:
  assumes "\<forall>a. saveAgent env a = None"
  shows "\<exists>task. fst (executeTask env agent) = Inr task \<and>
     (task_status task = TASK_COMPLETED \<or> task_status task = TASK_FAILED) \<and>
     (task_status task = TASK_COMPLETED \<longleftrightarrow> (\<exists>r. runRoleTask env (agent_role agent) agent = Inr r)) \<and>
     currentTask (metadata (snd (executeTask env agent))) = None \<and>
     (if task_status task = TASK_COMPLETED
      then successCount (metadata (snd (executeTask env agent))) = successCount (metadata agent) + 1 \<and>
           failureCount (metadata (snd (executeTask env agent))) = failureCount (metadata agent)
      else successCount (metadata (snd (executeTask env agent))) = successCount (metadata agent) \<and>
           failureCount (metadata (snd (executeTask env agent))) = failureCount (metadata agent) + 1) \<and>
     ((\<exists>r. runRoleTask env (agent_role agent) agent = Inr r) \<and> logTaskOnChain env = None \<longrightarrow>
        task_status task = TASK_COMPLETED \<and> onChainTx task = None)"
proof (cases "runRoleTask env (agent_role agent) agent")
  case (Inl e)
  then show ?thesis using assms
    by (simp add: executeTask_def executeTask_catch_def Let_def)
next
  case (Inr r)
  then show ?thesis using assms
    by (simp add: executeTask_def executeTask_catch_def Let_def)
qed

theorem executeTask_returns_witness:
  "(\<forall>a. saveAgent offlineEnv a = None) \<and>
   (\<exists>task. fst (executeTask offlineEnv (sampleAgent 1)) = Inr task \<and>
      task_status task = TASK_COMPLETED \<and> onChainTx task = None) \<and>
   successCount (metadata (snd (executeTask offlineEnv (sampleAgent 1)))) = 1 \<and>
   (\<forall>a. saveAgent brokenTaskEnv a = None) \<and>
   (\<exists>task. fst (executeTask brokenTaskEnv (sampleAgent 1)) = Inr task \<and>
      task_status task = TASK_FAILED) \<and>
   failureCount (metadata (snd (executeTask brokenTaskEnv (sampleAgent 1)))) = 1"
proof -
  have s1: "\<forall>a. saveAgent offlineEnv a = None"
    by (simp add: offlineEnv_def)
  have s2: "\<forall>a. saveAgent brokenTaskEnv a = None"
    by (simp add: brokenTaskEnv_def offlineEnv_def)
  have r1: "\<exists>r. runRoleTask offlineEnv (agent_role (sampleAgent 1)) (sampleAgent 1) = Inr r"
    by (simp add: offlineEnv_def)
  have r2: "\<not> (\<exists>r. runRoleTask brokenTaskEnv (agent_role (sampleAgent 1)) (sampleAgent 1) = Inr r)"
    by (simp add: brokenTaskEnv_def offlineEnv_def)
  have z: "successCount (metadata (sampleAgent 1)) = 0" "failureCount (metadata (sampleAgent 1)) = 0"
    by (simp_all add: sampleAgent_def)
  show ?thesis
    using executeTask_returns [OF s1, of "sampleAgent 1"]
          executeTask_returns [OF s2, of "sampleAgent 1"] s1 s2 r1 r2 z logTaskOnChain_offline
    by (auto split: if_splits)
qed

section \<open>Properties of role selection\<close>

lemma allRoles_all: "set allRoles = UNIV"
proof -
  have "r \<in> set allRoles" for r by (cases r) (simp_all add: allRoles_def)
  then show ?thesis by blast
qed

lemma allRoles_distinct: "distinct allRoles"
  by (simp add: allRoles_def)

lemma map_of_mapSet: "map_of (mapSet m k v) = (map_of m)(k \<mapsto> v)"
  by (induction m) (auto simp: fun_eq_iff)

lemma keys_mapSet: "k \<in> fst ` set m \<Longrightarrow> map fst (mapSet m k v) = map fst m"
  by (induction m) force+

lemma countByRole_from:
  "set (map fst m) = UNIV \<Longrightarrow> (\<And>r. map_of m r = Some (g r)) \<Longrightarrow>
   map fst (foldl countRole m agents) = map fst m \<and>
   (\<forall>r. map_of (foldl countRole m agents) r =
          Some (g r + length (filter (\<lambda>a. agent_role a = r) agents)))"
proof (induction agents arbitrary: m g)
  case Nil
  then show ?case by simp
next
  case (Cons a agents)
  let ?m = "countRole m a"
  let ?g = "\<lambda>r. if r = agent_role a then g r + 1 else g r"
  have k: "map fst ?m = map fst m"
    using Cons.prems(1) by (simp add: countRole_def Let_def keys_mapSet)
  have v: "map_of ?m r = Some (?g r)" for r
    using Cons.prems(2) by (simp add: countRole_def Let_def map_of_mapSet)
  have "map fst (foldl countRole ?m agents) = map fst ?m \<and>
        (\<forall>r. map_of (foldl countRole ?m agents) r =
              Some (?g r + length (filter (\<lambda>a. agent_role a = r) agents)))"
    by (rule Cons.IH) (use k v Cons.prems(1) in auto)
  then show ?case using k by auto
qed

lemma assoc_determined:
  "distinct (map fst m) \<Longrightarrow> (\<And>k. k \<in> fst ` set m \<Longrightarrow> map_of m k = Some (g k)) \<Longrightarrow>
   m = map (\<lambda>k. (k, g k)) (map fst m)"
proof (induction m)
  case Nil
  then show ?case by simp
next
  case (Cons p m)
  obtain k v where p: "p = (k, v)" by (cases p)
  have "map_of (p # m) k = Some (g k)" using Cons.prems(2) [of k] p by simp
  then have v: "v = g k" using p by simp
  have "m = map (\<lambda>k. (k, g k)) (map fst m)"
  proof (rule Cons.IH)
    show "distinct (map fst m)" using Cons.prems(1) by simp
    fix k' assume k': "k' \<in> fst ` set m"
    then have "k' \<noteq> k" using Cons.prems(1) p by auto
    then show "map_of m k' = Some (g k')" using Cons.prems(2) [of k'] k' p by simp
  qed
  then show ?case using p v by simp
qed

lemma countByRole_eq:
  "countByRole agents =
     map (\<lambda>r. (r, length (filter (\<lambda>a. agent_role a = r) agents))) allRoles"
proof -
  let ?m0 = "map (\<lambda>role. (role, 0::nat)) allRoles"
  have f: "map fst ?m0 = allRoles" by (simp add: comp_def)
  have m0: "map_of ?m0 r = Some 0" for r
    by (cases r) (simp_all add: allRoles_def)
  have c: "map fst (foldl countRole ?m0 agents) = map fst ?m0 \<and>
        (\<forall>r. map_of (foldl countRole ?m0 agents) r =
              Some ((\<lambda>r. 0) r + length (filter (\<lambda>a. agent_role a = r) agents)))"
    by (rule countByRole_from) (use f m0 allRoles_all in auto)
  then have k: "map fst (countByRole agents) = allRoles"
    using f by (simp add: countByRole_def)
  have "countByRole agents =
     map (\<lambda>r. (r, length (filter (\<lambda>a. agent_role a = r) agents))) (map fst (countByRole agents))"
    by (rule assoc_determined) (use c k allRoles_distinct in \<open>auto simp: countByRole_def\<close>)
  then show ?thesis using k by simp
qed

lemma mathMin_least:
  "xs \<noteq> [] \<Longrightarrow> \<exists>m. mathMin xs = Some m \<and> m \<in> set xs \<and> (\<forall>x \<in> set xs. m \<le> x)"
proof (induction xs)
  case Nil
  then show ?case by simp
next
  case (Cons x xs)
  show ?case
  proof (cases xs)
    case Nil
    then show ?thesis by simp
  next
    case (Cons y ys)
    then obtain m where "mathMin xs = Some m" "m \<in> set xs" "\<forall>x \<in> set xs. m \<le> x"
      using Cons.IH by auto
    then show ?thesis by (auto simp: min_def)
  qed
qed

lemma underrepresented_eq:
  "\<exists>m. (\<forall>r. m \<le> roleCount c r) \<and> (\<exists>r. roleCount c r = m) \<and>
       underrepresentedRoles c = filter (\<lambda>r. roleCount c r = m) allRoles"
proof -
  let ?g = "\<lambda>r. length (filter (\<lambda>a. agent_role a = r) (activeAgents c))"
  have vals: "map snd (countByRole (activeAgents c)) = map ?g allRoles"
    by (simp add: countByRole_eq comp_def)
  have "map ?g allRoles \<noteq> []" by (simp add: allRoles_def)
  then obtain m where m: "mathMin (map ?g allRoles) = Some m" "m \<in> set (map ?g allRoles)"
      "\<forall>x \<in> set (map ?g allRoles). m \<le> x"
    using mathMin_least by blast
  have 1: "\<forall>r. m \<le> roleCount c r" using m(3) allRoles_all by (auto simp: roleCount_def)
  have 2: "\<exists>r. roleCount c r = m" using m(2) by (auto simp: roleCount_def)
  have 3: "underrepresentedRoles c = filter (\<lambda>r. roleCount c r = m) allRoles"
    unfolding underrepresentedRoles_def Let_def vals m(1)
    by (simp add: countByRole_eq filter_map comp_def roleCount_def)
  show ?thesis using 1 2 3 by blast
qed

lemma underrepresented_set:
  "set (underrepresentedRoles c) = {r. leastRepresented c r} \<and>
   distinct (underrepresentedRoles c) \<and> underrepresentedRoles c \<noteq> []"
proof -
  obtain m where m: "\<forall>r. m \<le> roleCount c r" "\<exists>r. roleCount c r = m"
      "underrepresentedRoles c = filter (\<lambda>r. roleCount c r = m) allRoles"
    using underrepresented_eq by blast
  have "leastRepresented c r \<longleftrightarrow> roleCount c r = m" for r
    using m(1,2) by (auto simp: leastRepresented_def allRoles_all intro: antisym)
  then have s: "set (underrepresentedRoles c) = {r. leastRepresented c r}"
    using m(3) allRoles_all by auto
  obtain r0 where "roleCount c r0 = m" using m(2) by blast
  then have "r0 \<in> set (underrepresentedRoles c)" using m(3) allRoles_all by simp
  then have ne: "underrepresentedRoles c \<noteq> []" by auto
  have "distinct (underrepresentedRoles c)" using m(3) allRoles_distinct by simp
  then show ?thesis using s ne by blast
qed

lemma floor_index:
  fixes u :: real and n i :: nat
  assumes "0 < n"
  shows "\<lfloor>u * real n\<rfloor> = int i \<longleftrightarrow> real i / real n \<le> u \<and> u < real (i + 1) / real n"
proof -
  have n: "0 < real n" using assms by simp
  have "\<lfloor>u * real n\<rfloor> = int i \<longleftrightarrow> real_of_int (int i) \<le> u * real n \<and> u * real n < real_of_int (int i) + 1"
    by (rule floor_eq_iff)
  also have "\<dots> \<longleftrightarrow> real i / real n \<le> u \<and> u < real (i + 1) / real n"
    using n by (simp add: field_simps)
  finally show ?thesis .
qed

lemma selectRole_some:
  assumes "0 \<le> u" "u < 1"
  shows "\<exists>role. selectRole u c = Some role \<and> leastRepresented c role"
proof -
  let ?xs = "underrepresentedRoles c"
  have ne: "0 < length ?xs" using underrepresented_set [of c] by simp
  have lo: "0 \<le> \<lfloor>u * real (length ?xs)\<rfloor>" using assms(1) by simp
  have "u * real (length ?xs) < real (length ?xs)" using assms(2) ne by simp
  then have hi: "nat \<lfloor>u * real (length ?xs)\<rfloor> < length ?xs"
    using lo by (simp add: floor_less_iff nat_less_iff)
  then have "selectRole u c = Some (?xs ! nat \<lfloor>u * real (length ?xs)\<rfloor>)"
    using lo by (simp add: selectRole_def Let_def)
  moreover have "?xs ! nat \<lfloor>u * real (length ?xs)\<rfloor> \<in> set ?xs" using hi by (rule nth_mem)
  ultimately show ?thesis using underrepresented_set [of c] by auto
qed

lemma selectRole_interval:
  assumes "leastRepresented c role"
  shows "\<exists>i < card {r. leastRepresented c r}.
     {u. 0 \<le> u \<and> u < 1 \<and> selectRole u c = Some role} =
     {real i / real (card {r. leastRepresented c r}) ..<
      real (i + 1) / real (card {r. leastRepresented c r})}"
proof -
  let ?xs = "underrepresentedRoles c"
  let ?n = "length ?xs"
  have us: "set ?xs = {r. leastRepresented c r}" "distinct ?xs" "?xs \<noteq> []"
    using underrepresented_set [of c] by auto
  have card: "card {r. leastRepresented c r} = ?n"
    using us(1,2) distinct_card by metis
  have n: "0 < ?n" using us(3) by simp
  have "role \<in> set ?xs" using assms us(1) by simp
  then obtain i where i: "i < ?n" "?xs ! i = role"
    by (auto simp: in_set_conv_nth)
  have "selectRole u c = Some role \<and> 0 \<le> u \<and> u < 1 \<longleftrightarrow>
        real i / real ?n \<le> u \<and> u < real (i + 1) / real ?n" for u
  proof
    assume a: "selectRole u c = Some role \<and> 0 \<le> u \<and> u < 1"
    then have j: "0 \<le> \<lfloor>u * real ?n\<rfloor>" "nat \<lfloor>u * real ?n\<rfloor> < ?n"
        "?xs ! nat \<lfloor>u * real ?n\<rfloor> = role"
      by (auto simp: selectRole_def Let_def split: if_splits)
    have "?xs ! nat \<lfloor>u * real ?n\<rfloor> = ?xs ! i" using j(3) i(2) by simp
    then have "nat \<lfloor>u * real ?n\<rfloor> = i"
      using nth_eq_iff_index_eq [OF us(2) j(2) i(1)] by blast
    then have "\<lfloor>u * real ?n\<rfloor> = int i" using nat_0_le [OF j(1)] by simp
    then show "real i / real ?n \<le> u \<and> u < real (i + 1) / real ?n"
      using floor_index [OF n] by blast
  next
    assume b: "real i / real ?n \<le> u \<and> u < real (i + 1) / real ?n"
    then have f: "\<lfloor>u * real ?n\<rfloor> = int i" using floor_index [OF n] by blast
    have "0 \<le> real i / real ?n" by simp
    then have u0: "0 \<le> u" using b by linarith
    have "real (i + 1) / real ?n \<le> 1" using i(1) n by (simp add: field_simps)
    then have u1: "u < 1" using b by linarith
    have "selectRole u c = Some (?xs ! i)"
      unfolding selectRole_def Let_def f using i(1) by simp
    then show "selectRole u c = Some role \<and> 0 \<le> u \<and> u < 1"
      using i(2) u0 u1 by simp
  qed
  then have "{u. 0 \<le> u \<and> u < 1 \<and> selectRole u c = Some role} =
     {real i / real ?n ..< real (i + 1) / real ?n}"
    unfolding atLeastLessThan_def atLeast_def lessThan_def by blast
  then show ?thesis unfolding card using i(1) by blast
qed

text \<open>
  Claim C7. For a draw \<open>u\<close> in \<open>[0, 1)\<close>, \<open>selectRole\<close> returns a role, and the number
  of active agents with that role is the least among the five roles. For every least
  represented role, the draws that select it are exactly a half-open interval
  \<open>[i / k, (i + 1) / k)\<close>, where \<open>k\<close> is the number of least represented roles: under a
  uniform draw each of the tied roles has probability \<open>1 / k\<close>.
\<close>

theorem selectRole_least_represented:
  "(0 \<le> u \<and> u < 1 \<longrightarrow> (\<exists>role. selectRole u c = Some role \<and> leastRepresented c role)) \<and>
   (leastRepresented c role \<longrightarrow>
      (\<exists>i < card {r. leastRepresented c r}.
         {u. 0 \<le> u \<and> u < 1 \<and> selectRole u c = Some role} =
         {real i / real (card {r. leastRepresented c r}) ..<
          real (i + 1) / real (card {r. leastRepresented c r})}))"
  using selectRole_some selectRole_interval by blast

theorem selectRole_least_represented_witness:
  "(0::real) \<le> 1 / 2 \<and> (1 / 2 :: real) < 1 \<and>
   leastRepresented (mockState 0) ANALYST \<and>
   selectRole (1 / 2) (mockState 0) = Some ANALYST \<and>
   selectRole (1 / 2) (mockState 1) = Some COORDINATOR"
  using selectRole_least_represented [of "1 / 2" "mockState 0" ANALYST]
        selectRole_least_represented [of "1 / 2" "mockState 1" COORDINATOR]
  by (simp add: leastRepresented_def roleCount_def mockState_def selectRole_def
        underrepresentedRoles_def countByRole_def countRole_def allRoles_def sampleAgent_def
        Let_def)

section \<open>Properties of the memory store\<close>













end
